theory Spec2Isabelle
  imports Main
begin

section \<open>The bridge server of index.js\<close>

text \<open>
  index.js holds two revisions of the same server. The first (lines 1-178) lets the
  telephony provider pass the session identifier in the stream URL and resolves the
  session when the socket connects; the second (lines 179-516) also reads a custom
  parameter of the \<open>start\<close> event. The second revision also listens to the \<open>error\<close>
  event of the telephony socket, reads the body of a report response that is not ok
  before it logs it, and logs more lines. Everything else is the same code. The
  revision is a parameter of the handlers that differ.

  JavaScript runs each handler to its end (or to its first \<open>await\<close>) before the next
  event is taken, so a handler is a function from the state to the new state and the
  list of calls it makes on the outside world, in order.
\<close>

datatype revision = StreamUrl | StreamParameter

subsection \<open>Values\<close>

text \<open>
  Identifiers, payloads and texts are strings or absent (\<open>null\<close> and \<open>undefined\<close> are
  both \<open>None\<close>). A value is truthy when it is a non-empty string.
\<close>

definition truthy :: "string option \<Rightarrow> bool" where
  "truthy v = (case v of None \<Rightarrow> False | Some s \<Rightarrow> s \<noteq> [])"

text \<open>\<open>v || d\<close> on a string-or-absent value.\<close>

definition or_default :: "string option \<Rightarrow> string \<Rightarrow> string" where
  "or_default v d = (case v of None \<Rightarrow> d | Some s \<Rightarrow> if s = [] then d else s)"

text \<open>\<open>v || null\<close>.\<close>

definition or_null :: "string option \<Rightarrow> string option" where
  "or_null v = (if truthy v then v else None)"

subsection \<open>Sessions\<close>

datatype role = User | Agent

record entry =
  role :: role
  etext :: string
  timestamp :: int

record session =
  prompt :: string
  callId :: "string option"
  contactName :: string
  voiceId :: string
  language :: string
  transcript :: "entry list"
  createdAt :: int
  ended :: bool

text \<open>The body of \<open>POST /session\<close>; every field may be missing.\<close>

record body =
  body_prompt :: "string option"
  body_callId :: "string option"
  body_contactName :: "string option"
  body_voiceId :: "string option"
  body_language :: "string option"

subsection \<open>Sockets and the closure of one telephony connection\<close>

datatype ready_state = CONNECTING | OPEN | CLOSING | CLOSED

text \<open>
  The variables captured by the handlers of one telephony socket. \<open>session\<close> is a
  reference to the session object (an address of the store below), so that it stays
  usable after the registry has dropped the identifier. Every call of
  \<open>connectOpenAI\<close> makes a new socket; \<open>readyState\<close> gives the state of each socket
  made so far, \<open>socketCount\<close> their number, and \<open>openaiWs\<close> points to the latest.
\<close>

record connection =
  sessionId :: "string option"
  session :: "nat option"
  streamSid :: "string option"
  callSid :: "string option"
  openaiWs :: "nat option"
  openaiReady :: bool
  readyState :: "nat \<Rightarrow> ready_state"
  socketCount :: nat

subsection \<open>Messages\<close>

text \<open>
  A frame received on a socket: \<open>Unparseable\<close> when \<open>JSON.parse\<close> (or the read of the
  event type on its result) throws, the parsed message otherwise.
\<close>

datatype 'a frame = Unparseable | Json 'a

text \<open>
  A telephony message, by its \<open>event\<close>. \<open>Start None\<close> and \<open>Media None\<close> are events
  whose \<open>start\<close> or \<open>media\<close> object is missing, so that reading a property of it
  throws. \<open>customParameters\<close> is \<open>None\<close> when the object is missing, and holds its
  \<open>sessionId\<close> entry otherwise.
\<close>

record start_payload =
  start_streamSid :: "string option"
  start_callSid :: "string option"
  customParameters :: "string option option"

record media_payload =
  payload :: "string option"

datatype twilio_msg =
    Connected
  | Start "start_payload option"
  | Media "media_payload option"
  | Stop
  | TwilioOther

text \<open>An event of the AI leg after \<open>JSON.parse\<close>, by its \<open>type\<close>.\<close>

datatype openai_msg =
    SessionCreated
  | AudioDelta "string option"
  | AudioTranscriptDone "string option"
  | InputTranscriptionCompleted "string option"
  | SpeechStarted
  | ErrorEvent
  | OpenaiOther

subsection \<open>Effects\<close>

text \<open>
  What a handler does to the outside world: the calls it makes, in order. Sockets are
  named by the index of the telephony connection and, for the AI leg, the number of
  the socket within it. Log lines keep the console method only. The
  \<open>session.update\<close> message keeps its one variable field, the instructions.
\<close>

datatype console = Info | Error

datatype openai_out =
    SessionUpdate string
  | ResponseCreate
  | InputAudioBufferAppend "string option"

datatype twilio_out =
    MediaFrame string string
  | Clear "string option"

record report =
  report_type :: string
  report_callId :: "string option"
  report_callSid :: "string option"
  report_transcript :: string
  report_duration :: int
  report_endedReason :: string

datatype effect =
    Console console
  | TwilioSend nat twilio_out
  | TwilioClose nat
  | NewWebSocket nat nat
  | OpenaiSend nat nat openai_out
  | OpenaiClose nat nat
  | Fetch report
  | SetTimeout "string option" int
  | ResJson string
  | UncaughtException

subsection \<open>The process state\<close>

text \<open>
  \<open>sessions\<close> is the registry (the \<open>Map\<close>), from identifiers to session objects;
  \<open>objs\<close> is the store of session objects and \<open>nextRef\<close> the next free address.
  \<open>conns\<close> has one entry per accepted telephony socket: its closure, or \<open>None\<close> when
  the connection handler returned before it registered a handler. \<open>awaiting\<close> are the
  calls of \<open>handleCallEnd\<close> suspended at an \<open>await\<close>, each with the point where it
  waits (\<open>await fetch\<close>, or \<open>await resp.text()\<close> in the second revision) and the
  identifier it will pass to \<open>setTimeout\<close>. \<open>clock\<close> is \<open>Date.now()\<close> in milliseconds:
  the wall clock, which the system may set forward or back. \<open>uptime\<close> is the clock of
  the timers, which only moves forward, and \<open>timers\<close> are the pending \<open>setTimeout\<close>
  callbacks with their due time on that clock.
\<close>

datatype suspended = AtFetch | AtText

record server =
  sessions :: "string \<Rightarrow> nat option"
  objs :: "nat \<Rightarrow> session"
  nextRef :: nat
  conns :: "connection option list"
  awaiting :: "(suspended \<times> string option) list"
  timers :: "(int \<times> string option) list"
  clock :: int
  uptime :: int

record config =
  SUPABASE_URL :: "string option"
  SUPABASE_ANON_KEY :: "string option"

text \<open>\<open>sessions.get(sessionId)\<close>, where the identifier may be \<open>null\<close>.\<close>

definition sessions_get :: "server \<Rightarrow> string option \<Rightarrow> nat option" where
  "sessions_get srv sid = (case sid of None \<Rightarrow> None | Some k \<Rightarrow> sessions srv k)"

text \<open>\<open>sessions.delete(sessionId)\<close>.\<close>

definition sessions_delete :: "string option \<Rightarrow> server \<Rightarrow> server" where
  "sessions_delete sid srv =
     (case sid of None \<Rightarrow> srv | Some k \<Rightarrow> srv\<lparr>sessions := (sessions srv)(k := None)\<rparr>)"


section \<open>The session lifecycle\<close>

subsection \<open>POST /session\<close>

text \<open>\<open>uuid\<close> is the value \<open>uuidv4()\<close> returns.\<close>

definition post_session :: "string \<Rightarrow> body \<Rightarrow> server \<Rightarrow> server \<times> effect list" where
  "post_session uuid b srv =
     (srv\<lparr>sessions := (sessions srv)(uuid := Some (nextRef srv)),
          objs := (objs srv)(nextRef srv :=
            \<lparr>prompt = or_default (body_prompt b) ''You are a helpful assistant.'',
             callId = or_null (body_callId b),
             contactName = or_default (body_contactName b) [],
             voiceId = or_default (body_voiceId b) ''alloy'',
             language = or_default (body_language b) ''he'',
             transcript = [],
             createdAt = clock srv,
             ended = False\<rparr>),
          nextRef := Suc (nextRef srv)\<rparr>,
      [Console Info, ResJson uuid])"

subsection \<open>handleCallEnd\<close>

text \<open>
  \<open>Math.round(ms / 1000)\<close> on an integer number of milliseconds: the nearest whole
  number of seconds, a half rounded up.
\<close>

definition seconds_rounded :: "int \<Rightarrow> int" where
  "seconds_rounded ms = (ms + 500) div 1000"

text \<open>\<open>Array.prototype.join\<close>.\<close>

fun join :: "string \<Rightarrow> string list \<Rightarrow> string" where
  "join sep [] = []"
| "join sep [x] = x"
| "join sep (x # y # ys) = x @ sep @ join sep (y # ys)"

text \<open>The two speaker labels, as the UTF-8 bytes of the Hebrew words in the source.\<close>

definition label_user :: string where
  "label_user = [CHR 0xD7, CHR 0x9C, CHR 0xD7, CHR 0xA7, CHR 0xD7, CHR 0x95, CHR 0xD7, CHR 0x97]"

definition label_agent :: string where
  "label_agent = [CHR 0xD7, CHR 0xA1, CHR 0xD7, CHR 0x95, CHR 0xD7, CHR 0x9B, CHR 0xD7, CHR 0x9F]"

definition transcript_line :: "entry \<Rightarrow> string" where
  "transcript_line t = (if role t = User then label_user else label_agent) @ '': '' @ etext t"

definition transcriptStr :: "entry list \<Rightarrow> string" where
  "transcriptStr ts = join [CHR 0x0A] (map transcript_line ts)"

definition grace_period :: int where
  "grace_period = 5 * 60 * 1000"

text \<open>\<open>setTimeout(() => sessions.delete(sessionId), 5 * 60 * 1000)\<close>.\<close>

definition schedule_delete :: "string option \<Rightarrow> server \<Rightarrow> server \<times> effect list" where
  "schedule_delete sid srv =
     (srv\<lparr>timers := timers srv @ [(uptime srv + grace_period, sid)]\<rparr>,
      [SetTimeout sid grace_period])"

text \<open>
  \<open>handleCallEnd\<close> up to its \<open>await\<close>. Without a report it runs on to \<open>setTimeout\<close>;
  with one it issues the request and is suspended.
\<close>

definition handleCallEnd ::
  "config \<Rightarrow> string option \<Rightarrow> string option \<Rightarrow> server \<Rightarrow> server \<times> effect list" where
  "handleCallEnd cfg sid csid srv =
     (case sessions_get srv sid of
        None \<Rightarrow> (srv, [])
      | Some r \<Rightarrow>
          if ended (objs srv r) then (srv, [])
          else
            let srv1 = srv\<lparr>objs := (objs srv)(r := (objs srv r)\<lparr>ended := True\<rparr>)\<rparr>;
                s = objs srv1 r;
                duration = seconds_rounded (clock srv1 - createdAt s);
                str = transcriptStr (transcript s)
            in if truthy (SUPABASE_URL cfg) \<and> truthy (SUPABASE_ANON_KEY cfg) \<and> truthy (callId s)
               then (srv1\<lparr>awaiting := awaiting srv1 @ [(AtFetch, sid)]\<rparr>,
                     [Console Info,
                      Fetch \<lparr>report_type = ''openai-realtime-end'',
                             report_callId = callId s,
                             report_callSid = csid,
                             report_transcript = str,
                             report_duration = duration,
                             report_endedReason = ''call_ended''\<rparr>])
               else (case schedule_delete sid srv1 of
                       (srv2, effs) \<Rightarrow> (srv2, Console Info # effs)))"

text \<open>
  The rest of \<open>handleCallEnd\<close>, run when the request settles: the promise rejects, or
  a response arrives with its \<open>ok\<close> flag. On a rejection the \<open>catch\<close> logs an error,
  on an ok response a line is logged, and the deletion is scheduled. On a response
  that is not ok the first revision logs the status as an error and schedules the
  deletion; the second revision first awaits \<open>resp.text()\<close> for its error line, so the
  call is suspended once more.
\<close>

datatype fetch_outcome = Rejected | Responded bool

definition handleCallEnd_settled ::
  "revision \<Rightarrow> fetch_outcome \<Rightarrow> string option \<Rightarrow> server \<Rightarrow> server \<times> effect list" where
  "handleCallEnd_settled rv out sid srv =
     (case out of
        Rejected \<Rightarrow>
          (case schedule_delete sid srv of (srv1, effs) \<Rightarrow> (srv1, Console Error # effs))
      | Responded True \<Rightarrow>
          (case schedule_delete sid srv of (srv1, effs) \<Rightarrow> (srv1, Console Info # effs))
      | Responded False \<Rightarrow>
          (case rv of
             StreamUrl \<Rightarrow>
               (case schedule_delete sid srv of (srv1, effs) \<Rightarrow> (srv1, Console Error # effs))
           | StreamParameter \<Rightarrow> (srv\<lparr>awaiting := awaiting srv @ [(AtText, sid)]\<rparr>, [])))"

text \<open>
  The rest of \<open>handleCallEnd\<close> in the second revision, run when \<open>resp.text()\<close> settles:
  with the body the error line is logged, without it the \<open>catch\<close> logs an error; then
  the deletion is scheduled.
\<close>

definition handleCallEnd_text_settled ::
  "bool \<Rightarrow> string option \<Rightarrow> server \<Rightarrow> server \<times> effect list" where
  "handleCallEnd_text_settled resolved sid srv =
     (case schedule_delete sid srv of (srv1, effs) \<Rightarrow> (srv1, Console Error # effs))"

subsection \<open>The periodic sweep\<close>

definition max_age :: int where
  "max_age = 2 * 60 * 60 * 1000"

definition sweep :: "server \<Rightarrow> server" where
  "sweep srv =
     srv\<lparr>sessions := (\<lambda>k. case sessions srv k of
                             None \<Rightarrow> None
                           | Some r \<Rightarrow>
                               if clock srv - createdAt (objs srv r) > max_age then None
                               else Some r)\<rparr>"

section \<open>The AI leg\<close>

definition connectOpenAI :: "nat \<Rightarrow> connection \<Rightarrow> connection \<times> effect list" where
  "connectOpenAI i c =
     (c\<lparr>openaiWs := Some (socketCount c),
        readyState := (readyState c)(socketCount c := CONNECTING),
        socketCount := Suc (socketCount c)\<rparr>,
      [NewWebSocket i (socketCount c)])"

text \<open>
  \<open>openaiWs.send(m)\<close>: \<open>None\<close> when the call throws, which it does when \<open>openaiWs\<close> is
  \<open>null\<close> and when the socket is still connecting (the \<open>ws\<close> library refuses a send
  before the handshake is over). On any other socket the call is recorded as made.
\<close>

definition openaiWs_send :: "nat \<Rightarrow> connection \<Rightarrow> openai_out \<Rightarrow> effect list option" where
  "openaiWs_send i c m =
     (case openaiWs c of
        None \<Rightarrow> None
      | Some w \<Rightarrow> if readyState c w = CONNECTING then None else Some [OpenaiSend i w m])"

text \<open>\<open>openaiWs?.readyState === WebSocket.OPEN\<close>.\<close>

definition openaiWs_open :: "connection \<Rightarrow> bool" where
  "openaiWs_open c = (case openaiWs c of None \<Rightarrow> False | Some w \<Rightarrow> readyState c w = OPEN)"

text \<open>
  The \<open>open\<close> handler of socket \<open>h\<close>, which the library calls once the socket is open.
  Nothing catches what it throws.
\<close>

definition openai_on_open ::
  "nat \<Rightarrow> nat \<Rightarrow> connection \<Rightarrow> server \<Rightarrow> connection \<times> effect list" where
  "openai_on_open i h c srv =
     (let c1 = c\<lparr>readyState := (readyState c)(h := OPEN)\<rparr> in
      case session c1 of
        None \<Rightarrow> (c1, [Console Info, UncaughtException])
      | Some r \<Rightarrow>
          (case openaiWs_send i c1 (SessionUpdate (prompt (objs srv r))) of
             None \<Rightarrow> (c1, [Console Info, UncaughtException])
           | Some effs \<Rightarrow> (c1\<lparr>openaiReady := True\<rparr>, Console Info # effs)))"

text \<open>\<open>session.transcript.push({role, text, timestamp: Date.now()})\<close>.\<close>

definition transcript_push :: "nat \<Rightarrow> role \<Rightarrow> string \<Rightarrow> server \<Rightarrow> server" where
  "transcript_push r ro t srv =
     srv\<lparr>objs := (objs srv)(r := (objs srv r)\<lparr>transcript :=
       transcript (objs srv r) @ [\<lparr>role = ro, etext = t, timestamp = clock srv\<rparr>]\<rparr>)\<rparr>"

datatype completion = Normal | Throw

definition push_if_present ::
  "role \<Rightarrow> string option \<Rightarrow> connection \<Rightarrow> server \<Rightarrow> server \<times> effect list \<times> completion" where
  "push_if_present ro t c srv =
     (if truthy t then
        (case session c of
           None \<Rightarrow> (srv, [], Throw)
         | Some r \<Rightarrow> (transcript_push r ro (the t) srv, [], Normal))
      else (srv, [], Normal))"

definition handleOpenAIEvent ::
  "revision \<Rightarrow> nat \<Rightarrow> openai_msg \<Rightarrow> connection \<Rightarrow> server
     \<Rightarrow> server \<times> effect list \<times> completion" where
  "handleOpenAIEvent rv i ev c srv =
     (case ev of
        SessionCreated \<Rightarrow>
          (let logged = (if rv = StreamParameter then [Console Info] else []) in
           case openaiWs_send i c ResponseCreate of
             None \<Rightarrow> (srv, logged, Throw)
           | Some effs \<Rightarrow> (srv, logged @ effs, Normal))
      | AudioDelta d \<Rightarrow>
          (if truthy (streamSid c) \<and> truthy d
           then (srv, [TwilioSend i (MediaFrame (the (streamSid c)) (the d))], Normal)
           else (srv, [], Normal))
      | AudioTranscriptDone t \<Rightarrow> push_if_present Agent t c srv
      | InputTranscriptionCompleted t \<Rightarrow> push_if_present User t c srv
      | SpeechStarted \<Rightarrow> (srv, [TwilioSend i (Clear (streamSid c))], Normal)
      | ErrorEvent \<Rightarrow> (srv, [Console Error], Normal)
      | OpenaiOther \<Rightarrow> (srv, [], Normal))"

text \<open>The \<open>message\<close> handler of an AI socket, with its \<open>try\<close> and \<open>catch\<close>.\<close>

definition openai_on_message ::
  "revision \<Rightarrow> nat \<Rightarrow> openai_msg frame \<Rightarrow> connection \<Rightarrow> server \<Rightarrow> server \<times> effect list" where
  "openai_on_message rv i fr c srv =
     (case fr of
        Unparseable \<Rightarrow> (srv, [Console Error])
      | Json ev \<Rightarrow>
          (case handleOpenAIEvent rv i ev c srv of
             (srv1, effs, Normal) \<Rightarrow> (srv1, effs)
           | (srv1, effs, Throw) \<Rightarrow> (srv1, effs @ [Console Error])))"

text \<open>The \<open>close\<close> and \<open>error\<close> handlers of socket \<open>h\<close>.\<close>

definition openai_on_close :: "revision \<Rightarrow> nat \<Rightarrow> connection \<Rightarrow> connection \<times> effect list" where
  "openai_on_close rv h c =
     (c\<lparr>readyState := (readyState c)(h := CLOSED), openaiReady := False\<rparr>,
      if rv = StreamParameter then [Console Info] else [])"

definition openai_on_error :: "connection \<Rightarrow> connection \<times> effect list" where
  "openai_on_error c = (c, [Console Error])"

section \<open>The telephony leg\<close>

definition new_connection :: "string option \<Rightarrow> nat option \<Rightarrow> connection" where
  "new_connection sid s =
     \<lparr>sessionId = sid, session = s, streamSid = None, callSid = None,
      openaiWs = None, openaiReady = False, readyState = (\<lambda>_. CLOSED), socketCount = 0\<rparr>"

text \<open>
  The \<open>connection\<close> handler of the socket server; \<open>q\<close> is the \<open>sessionId\<close> parameter
  of the request URL. The first revision refuses a connection whose session it cannot
  find and registers no handler on it; the second keeps what it found, if anything.
\<close>

definition wss_on_connection ::
  "revision \<Rightarrow> string option \<Rightarrow> server \<Rightarrow> server \<times> effect list" where
  "wss_on_connection rv q srv =
     (let i = length (conns srv) in
      case rv of
        StreamUrl \<Rightarrow>
          if \<not> truthy q \<or> sessions_get srv q = None
          then (srv\<lparr>conns := conns srv @ [None]\<rparr>, [Console Error, TwilioClose i])
          else (srv\<lparr>conns := conns srv @ [Some (new_connection q (sessions_get srv q))]\<rparr>,
                [Console Info])
      | StreamParameter \<Rightarrow>
          (srv\<lparr>conns := conns srv @
             [Some (new_connection q (if truthy q then sessions_get srv q else None))]\<rparr>,
           [Console Info]))"

text \<open>The \<open>start\<close> case, for an event that has its \<open>start\<close> object.\<close>

definition twilio_start ::
  "revision \<Rightarrow> nat \<Rightarrow> start_payload \<Rightarrow> connection \<Rightarrow> server \<Rightarrow> connection \<times> effect list" where
  "twilio_start rv i p c srv =
     (let c1 = c\<lparr>streamSid := start_streamSid p, callSid := start_callSid p\<rparr> in
      case rv of
        StreamUrl \<Rightarrow> connectOpenAI i c1
      | StreamParameter \<Rightarrow>
          (let custom = (case customParameters p of None \<Rightarrow> None | Some v \<Rightarrow> v);
               c2 = (if session c1 = None \<and> truthy custom
                     then c1\<lparr>sessionId := custom, session := sessions_get srv custom\<rparr>
                     else c1)
           in if session c2 = None then (c2, [Console Error, TwilioClose i])
              else (case connectOpenAI i c2 of (c3, effs) \<Rightarrow> (c3, Console Info # effs))))"

text \<open>The \<open>media\<close> case.\<close>

definition twilio_media :: "nat \<Rightarrow> media_payload option \<Rightarrow> connection \<Rightarrow> effect list" where
  "twilio_media i mp c =
     (if openaiReady c \<and> openaiWs_open c then
        (case mp of
           None \<Rightarrow> [Console Error]
         | Some m \<Rightarrow>
             (case openaiWs_send i c (InputAudioBufferAppend (payload m)) of
                None \<Rightarrow> [Console Error]
              | Some effs \<Rightarrow> effs))
      else [])"

text \<open>The \<open>message\<close> handler of the telephony socket, with its \<open>try\<close> and \<open>catch\<close>.\<close>

definition twilio_on_message ::
  "revision \<Rightarrow> config \<Rightarrow> nat \<Rightarrow> twilio_msg frame \<Rightarrow> connection \<Rightarrow> server
     \<Rightarrow> connection \<times> server \<times> effect list" where
  "twilio_on_message rv cfg i fr c srv =
     (case fr of
        Unparseable \<Rightarrow> (c, srv, [Console Error])
      | Json Connected \<Rightarrow> (c, srv, if rv = StreamParameter then [Console Info] else [])
      | Json (Start None) \<Rightarrow> (c, srv, [Console Error])
      | Json (Start (Some p)) \<Rightarrow>
          (case twilio_start rv i p c srv of (c1, effs) \<Rightarrow> (c1, srv, effs))
      | Json (Media mp) \<Rightarrow> (c, srv, twilio_media i mp c)
      | Json Stop \<Rightarrow>
          (case handleCallEnd cfg (sessionId c) (callSid c) srv of
             (srv1, effs) \<Rightarrow>
               (c, srv1, (if rv = StreamParameter then [Console Info] else []) @ effs))
      | Json TwilioOther \<Rightarrow> (c, srv, []))"

text \<open>The \<open>close\<close> handler of the telephony socket.\<close>

definition twilio_on_close ::
  "revision \<Rightarrow> config \<Rightarrow> nat \<Rightarrow> connection \<Rightarrow> server \<Rightarrow> connection \<times> server \<times> effect list" where
  "twilio_on_close rv cfg i c srv =
     (let logged = (if rv = StreamParameter then [Console Info] else []);
          c1 = (if openaiWs_open c
                then c\<lparr>readyState := (readyState c)(the (openaiWs c) := CLOSING)\<rparr>
                else c);
          closing = (if openaiWs_open c then [OpenaiClose i (the (openaiWs c))] else [])
      in case handleCallEnd cfg (sessionId c) (callSid c) srv of
           (srv1, effs) \<Rightarrow> (c1, srv1, logged @ closing @ effs))"

text \<open>
  The \<open>error\<close> event of the telephony socket: logged by the second revision; the
  first registers no listener for it, so the emitter throws.
\<close>

definition twilio_on_error :: "revision \<Rightarrow> effect list" where
  "twilio_on_error rv = (if rv = StreamParameter then [Console Error] else [UncaughtException])"

section \<open>The event loop\<close>

text \<open>
  What can happen to the process. Socket events name the telephony connection and,
  for the AI leg, the socket; \<open>FetchSettled\<close>, \<open>TextSettled\<close> and \<open>TimerFired\<close> name a
  suspended call or a pending timer by its position; \<open>Advance\<close> lets time pass on both
  clocks, and \<open>SetClock\<close> sets the wall clock, forward or back.
\<close>

datatype event =
    PostSession string body
  | WsConnection "string option"
  | TwilioMessage nat "twilio_msg frame"
  | TwilioClosed nat
  | TwilioError nat
  | OpenaiOpen nat nat
  | OpenaiMessage nat nat "openai_msg frame"
  | OpenaiClosed nat nat
  | OpenaiError nat nat
  | FetchSettled nat fetch_outcome
  | TextSettled nat bool
  | TimerFired nat
  | SweepTick
  | Advance nat
  | SetClock int

definition remove_nth :: "nat \<Rightarrow> 'a list \<Rightarrow> 'a list" where
  "remove_nth k xs = take k xs @ drop (Suc k) xs"

text \<open>Runs a handler in the closure of connection \<open>i\<close>, if there is one.\<close>

definition with_conn ::
  "nat \<Rightarrow> server \<Rightarrow> (connection \<Rightarrow> connection \<times> server \<times> effect list) \<Rightarrow> server \<times> effect list" where
  "with_conn i srv f =
     (if i < length (conns srv) then
        (case conns srv ! i of
           None \<Rightarrow> (srv, [])
         | Some c \<Rightarrow>
             (case f c of
                (c1, srv1, effs) \<Rightarrow> (srv1\<lparr>conns := (conns srv1)[i := Some c1]\<rparr>, effs)))
      else (srv, []))"

text \<open>The same for a handler of AI socket \<open>h\<close> of connection \<open>i\<close>.\<close>

definition with_socket ::
  "nat \<Rightarrow> nat \<Rightarrow> server \<Rightarrow> (connection \<Rightarrow> connection \<times> server \<times> effect list)
     \<Rightarrow> server \<times> effect list" where
  "with_socket i h srv f =
     with_conn i srv (\<lambda>c. if h < socketCount c then f c else (c, srv, []))"

text \<open>
  One event. An \<open>error\<close> event of a telephony socket that the first revision refused
  finds no listener at all, so the emitter throws. A settle event is taken only by a
  call that waits at that point, and a timer fires only when it is due.
\<close>

definition step :: "revision \<Rightarrow> config \<Rightarrow> server \<Rightarrow> event \<Rightarrow> server \<times> effect list" where
  "step rv cfg srv e =
     (case e of
        PostSession uuid b \<Rightarrow> post_session uuid b srv
      | WsConnection q \<Rightarrow> wss_on_connection rv q srv
      | TwilioMessage i fr \<Rightarrow> with_conn i srv (\<lambda>c. twilio_on_message rv cfg i fr c srv)
      | TwilioClosed i \<Rightarrow> with_conn i srv (\<lambda>c. twilio_on_close rv cfg i c srv)
      | TwilioError i \<Rightarrow>
          (if i < length (conns srv)
           then (srv, case conns srv ! i of
                        None \<Rightarrow> [UncaughtException]
                      | Some c \<Rightarrow> twilio_on_error rv)
           else (srv, []))
      | OpenaiOpen i h \<Rightarrow>
          with_socket i h srv
            (\<lambda>c. case openai_on_open i h c srv of (c1, effs) \<Rightarrow> (c1, srv, effs))
      | OpenaiMessage i h fr \<Rightarrow>
          with_socket i h srv
            (\<lambda>c. case openai_on_message rv i fr c srv of (srv1, effs) \<Rightarrow> (c, srv1, effs))
      | OpenaiClosed i h \<Rightarrow>
          with_socket i h srv
            (\<lambda>c. case openai_on_close rv h c of (c1, effs) \<Rightarrow> (c1, srv, effs))
      | OpenaiError i h \<Rightarrow>
          with_socket i h srv
            (\<lambda>c. case openai_on_error c of (c1, effs) \<Rightarrow> (c1, srv, effs))
      | FetchSettled k out \<Rightarrow>
          (if k < length (awaiting srv) \<and> fst (awaiting srv ! k) = AtFetch
           then handleCallEnd_settled rv out (snd (awaiting srv ! k))
                  (srv\<lparr>awaiting := remove_nth k (awaiting srv)\<rparr>)
           else (srv, []))
      | TextSettled k resolved \<Rightarrow>
          (if k < length (awaiting srv) \<and> fst (awaiting srv ! k) = AtText
           then handleCallEnd_text_settled resolved (snd (awaiting srv ! k))
                  (srv\<lparr>awaiting := remove_nth k (awaiting srv)\<rparr>)
           else (srv, []))
      | TimerFired k \<Rightarrow>
          (if k < length (timers srv) \<and> fst (timers srv ! k) \<le> uptime srv
           then (sessions_delete (snd (timers srv ! k))
                   (srv\<lparr>timers := remove_nth k (timers srv)\<rparr>), [])
           else (srv, []))
      | SweepTick \<Rightarrow> (sweep srv, [])
      | Advance d \<Rightarrow> (srv\<lparr>clock := clock srv + int d, uptime := uptime srv + int d\<rparr>, [])
      | SetClock t \<Rightarrow> (srv\<lparr>clock := t\<rparr>, []))"

text \<open>
  A list of events, one after the other. Nothing in the source handles an uncaught
  exception, so the process ends at the first one and the events after it are not
  taken.
\<close>

fun run :: "revision \<Rightarrow> config \<Rightarrow> server \<Rightarrow> event list \<Rightarrow> server \<times> effect list" where
  "run rv cfg srv [] = (srv, [])"
| "run rv cfg srv (e # es) =
     (case step rv cfg srv e of
        (srv1, effs1) \<Rightarrow>
          if UncaughtException \<in> set effs1 then (srv1, effs1)
          else (case run rv cfg srv1 es of (srv2, effs2) \<Rightarrow> (srv2, effs1 @ effs2)))"

text \<open>The process at start: no session, no connection, nothing pending.\<close>

definition no_session :: session where
  "no_session =
     \<lparr>prompt = [], callId = None, contactName = [], voiceId = [], language = [],
      transcript = [], createdAt = 0, ended = False\<rparr>"

definition init :: server where
  "init =
     \<lparr>sessions = (\<lambda>_. None), objs = (\<lambda>_. no_session), nextRef = 0, conns = [],
      awaiting = [], timers = [], clock = 0, uptime = 0\<rparr>"

section \<open>Notions used to state the properties\<close>

text \<open>The closure of connection \<open>i\<close>, if the connection exists and has one.\<close>

definition conn_at :: "server \<Rightarrow> nat \<Rightarrow> connection option" where
  "conn_at srv i = (if i < length (conns srv) then conns srv ! i else None)"

text \<open>The AI socket connection \<open>i\<close> currently holds, if any.\<close>

definition ai_leg :: "server \<Rightarrow> nat \<Rightarrow> nat option" where
  "ai_leg srv i = (case conn_at srv i of None \<Rightarrow> None | Some c \<Rightarrow> openaiWs c)"

text \<open>Whether a list of effects opens an AI socket for connection \<open>i\<close>.\<close>

definition opens_ai :: "nat \<Rightarrow> effect list \<Rightarrow> bool" where
  "opens_ai i effs = list_ex (\<lambda>e. case e of NewWebSocket j h \<Rightarrow> j = i | _ \<Rightarrow> False) effs"

text \<open>The number of result reports among a list of effects.\<close>

definition fetches :: "effect list \<Rightarrow> nat" where
  "fetches effs = length (filter (\<lambda>e. case e of Fetch b \<Rightarrow> True | _ \<Rightarrow> False) effs)"

text \<open>
  Along the run of a list of events from a state: the number of steps at which the
  session object \<open>r\<close> goes from not ended to ended, and the number of reports issued
  by those steps.
\<close>

fun transitions :: "revision \<Rightarrow> config \<Rightarrow> nat \<Rightarrow> server \<Rightarrow> event list \<Rightarrow> nat" where
  "transitions rv cfg r srv [] = 0"
| "transitions rv cfg r srv (e # es) =
     (if \<not> ended (objs srv r) \<and> ended (objs (fst (step rv cfg srv e)) r) then 1 else 0)
     + transitions rv cfg r (fst (step rv cfg srv e)) es"

fun reports :: "revision \<Rightarrow> config \<Rightarrow> nat \<Rightarrow> server \<Rightarrow> event list \<Rightarrow> nat" where
  "reports rv cfg r srv [] = 0"
| "reports rv cfg r srv (e # es) =
     (if \<not> ended (objs srv r) \<and> ended (objs (fst (step rv cfg srv e)) r)
      then fetches (snd (step rv cfg srv e)) else 0)
     + reports rv cfg r (fst (step rv cfg srv e)) es"

text \<open>Every registered identifier points to an allocated session object.\<close>

definition registry_ok :: "server \<Rightarrow> bool" where
  "registry_ok srv = (\<forall>k r. sessions srv k = Some r \<longrightarrow> r < nextRef srv)"

text \<open>
  The second state keeps the allocated objects of the first, and no session that has
  ended in the first is open again in the second.
\<close>

definition grows :: "server \<Rightarrow> server \<Rightarrow> bool" where
  "grows srv srv' =
     (nextRef srv \<le> nextRef srv' \<and>
      (\<forall>r. r < nextRef srv \<longrightarrow> ended (objs srv r) \<longrightarrow> ended (objs srv' r)))"

text \<open>The second state registers nothing that the first does not.\<close>

definition shrinks :: "server \<Rightarrow> server \<Rightarrow> bool" where
  "shrinks srv srv' =
     (nextRef srv' = nextRef srv \<and>
      (\<forall>k. sessions srv' k = None \<or> sessions srv' k = sessions srv k))"

text \<open>
  Whether a \<open>start\<close> event with payload \<open>p\<close> finds a session for the closure \<open>c\<close>. In
  the first revision the session was found when the socket connected (a connection
  without one has no closure), so every such event does. In the second it does when
  the closure already holds a session, or the event carries a non-empty custom
  parameter that is registered.
\<close>

definition resolves :: "revision \<Rightarrow> server \<Rightarrow> connection \<Rightarrow> start_payload \<Rightarrow> bool" where
  "resolves rv srv c p =
     (case rv of
        StreamUrl \<Rightarrow> True
      | StreamParameter \<Rightarrow>
          session c \<noteq> None \<or>
          (case customParameters p of
             Some (Some k) \<Rightarrow> k \<noteq> [] \<and> sessions srv k \<noteq> None
           | _ \<Rightarrow> False))"

text \<open>The event is a \<open>start\<close> event of connection \<open>i\<close> that finds its session.\<close>

definition start_succeeds :: "revision \<Rightarrow> nat \<Rightarrow> server \<Rightarrow> event \<Rightarrow> bool" where
  "start_succeeds rv i srv e =
     (case e of
        TwilioMessage j (Json (Start (Some p))) \<Rightarrow>
          j = i \<and> (case conn_at srv i of None \<Rightarrow> False | Some c \<Rightarrow> resolves rv srv c p)
      | _ \<Rightarrow> False)"

text \<open>No event of the run is a successful \<open>start\<close> of connection \<open>i\<close>.\<close>

fun never_starts :: "revision \<Rightarrow> config \<Rightarrow> nat \<Rightarrow> server \<Rightarrow> event list \<Rightarrow> bool" where
  "never_starts rv cfg i srv [] = True"
| "never_starts rv cfg i srv (e # es) =
     (\<not> start_succeeds rv i srv e \<and> never_starts rv cfg i (fst (step rv cfg srv e)) es)"

text \<open>Connection \<open>i\<close> was accepted without a closure: the handler refused it.\<close>

definition refused :: "server \<Rightarrow> nat \<Rightarrow> bool" where
  "refused srv i = (i < length (conns srv) \<and> conns srv ! i = None)"

text \<open>
  What holds of every closure of a process that runs revision \<open>rv\<close>: a closure of the
  first revision has a session, and in both revisions a closure that has made an AI
  socket has a session and a current AI socket among those made.
\<close>

definition closure_ok :: "revision \<Rightarrow> connection \<Rightarrow> bool" where
  "closure_ok rv c =
     ((rv = StreamUrl \<or> 0 < socketCount c \<longrightarrow> session c \<noteq> None) \<and>
      (0 < socketCount c \<longrightarrow>
         (case openaiWs c of None \<Rightarrow> False | Some w \<Rightarrow> w < socketCount c)))"

definition closures_ok :: "revision \<Rightarrow> server \<Rightarrow> bool" where
  "closures_ok rv srv =
     list_all (\<lambda>x. case x of None \<Rightarrow> True | Some c \<Rightarrow> closure_ok rv c) (conns srv)"

subsection \<open>Example data\<close>

definition example_body :: body where
  "example_body =
     \<lparr>body_prompt = Some ''Be concise'', body_callId = Some ''c-1'', body_contactName = None,
      body_voiceId = None, body_language = None\<rparr>"

definition other_body :: body where
  "other_body =
     \<lparr>body_prompt = Some ''Be verbose'', body_callId = Some ''c-2'', body_contactName = None,
      body_voiceId = None, body_language = None\<rparr>"

definition example_start :: start_payload where
  "example_start =
     \<lparr>start_streamSid = Some ''MZ1'', start_callSid = Some ''CA1'',
      customParameters = Some (Some ''s-1'')\<rparr>"

definition example_config :: config where
  "example_config =
     \<lparr>SUPABASE_URL = Some ''https://collector'', SUPABASE_ANON_KEY = Some ''key''\<rparr>"

definition no_collector :: config where
  "no_collector = \<lparr>SUPABASE_URL = None, SUPABASE_ANON_KEY = None\<rparr>"

definition example_session :: session where
  "example_session =
     \<lparr>prompt = ''Be concise'', callId = Some ''c-1'', contactName = [], voiceId = ''alloy'',
      language = ''he'', transcript = [], createdAt = 0, ended = False\<rparr>"

text \<open>A call after its \<open>start\<close> event: the AI socket is still connecting.\<close>

definition example_conn :: connection where
  "example_conn =
     \<lparr>sessionId = Some ''s-1'', session = Some 0, streamSid = Some ''MZ1'', callSid = Some ''CA1'',
      openaiWs = Some 0, openaiReady = False,
      readyState = (\<lambda>_. CLOSED)(0 := CONNECTING), socketCount = 1\<rparr>"

definition example_server :: server where
  "example_server =
     \<lparr>sessions = (\<lambda>_. None)(''s-1'' := Some 0), objs = (\<lambda>_. no_session)(0 := example_session),
      nextRef = 1, conns = [Some example_conn], awaiting = [], timers = [], clock = 0,
      uptime = 0\<rparr>"

text \<open>The same call once the AI socket is open.\<close>

definition ready_conn :: connection where
  "ready_conn =
     example_conn\<lparr>readyState := (\<lambda>_. CLOSED)(0 := OPEN), openaiReady := True\<rparr>"

definition ready_server :: server where
  "ready_server = example_server\<lparr>conns := [Some ready_conn]\<rparr>"

text \<open>
  The first call after a second \<open>start\<close> event: a second AI socket is connecting and
  is the current one, while the first has not opened yet.
\<close>

definition restarted_conn :: connection where
  "restarted_conn =
     example_conn\<lparr>openaiWs := Some 1,
                  readyState := (\<lambda>_. CLOSED)(0 := CONNECTING, 1 := CONNECTING),
                  socketCount := 2\<rparr>"

definition restarted_server :: server where
  "restarted_server = example_server\<lparr>conns := [Some restarted_conn]\<rparr>"

text \<open>The assistant speaks, the caller answers, and 1499 ms pass.\<close>

definition example_talk :: "event list" where
  "example_talk =
     [OpenaiMessage 0 0 (Json (AudioTranscriptDone (Some ''hi''))),
      OpenaiMessage 0 0 (Json (InputTranscriptionCompleted (Some ''yo''))),
      Advance 1499]"

section \<open>Basic facts\<close>


lemmas handler_defs =
  step_def post_session_def wss_on_connection_def with_conn_def with_socket_def
  twilio_on_message_def twilio_start_def twilio_media_def twilio_on_close_def twilio_on_error_def
  connectOpenAI_def openai_on_open_def openai_on_message_def openai_on_close_def
  openai_on_error_def handleOpenAIEvent_def push_if_present_def transcript_push_def
  openaiWs_send_def openaiWs_open_def new_connection_def sessions_get_def sessions_delete_def
  handleCallEnd_def handleCallEnd_settled_def handleCallEnd_text_settled_def
  schedule_delete_def sweep_def remove_nth_def
  truthy_def or_default_def or_null_def conn_at_def seconds_rounded_def transcriptStr_def
  transcript_line_def grace_period_def max_age_def

lemmas example_defs =
  init_def no_session_def example_body_def other_body_def example_start_def example_config_def
  no_collector_def example_session_def example_conn_def example_server_def ready_conn_def
  ready_server_def restarted_conn_def restarted_server_def


lemma with_conn_const:
  assumes "conn_at srv i = Some c" and "f c = (c, srv, effs)"
  shows "with_conn i srv f = (srv, effs)"
proof -
  from assms(1) have i: "i < length (conns srv)" and c: "conns srv ! i = Some c"
    by (auto simp: conn_at_def split: if_splits)
  have "(conns srv)[i := Some c] = conns srv"
    using c by (metis list_update_id)
  then show ?thesis
    using i c assms(2) by (simp add: with_conn_def)
qed

lemma openaiWs_send_open:
  "openaiWs_open c \<Longrightarrow> openaiWs_send i c m = Some [OpenaiSend i (the (openaiWs c)) m]"
  by (auto simp: openaiWs_open_def openaiWs_send_def split: option.splits)

lemma run_Cons:
  "fst (run rv cfg srv (e # es)) =
     (if UncaughtException \<in> set (snd (step rv cfg srv e)) then fst (step rv cfg srv e)
      else fst (run rv cfg (fst (step rv cfg srv e)) es))"
  "snd (run rv cfg srv (e # es)) =
     (if UncaughtException \<in> set (snd (step rv cfg srv e)) then snd (step rv cfg srv e)
      else snd (step rv cfg srv e) @ snd (run rv cfg (fst (step rv cfg srv e)) es))"
  by (simp_all split: prod.splits)

lemma run_invariant:
  assumes "P srv" and "\<And>s e. P s \<Longrightarrow> P (fst (step rv cfg s e))"
  shows "P (fst (run rv cfg srv es))"
  using assms(1)
proof (induction es arbitrary: srv)
  case Nil
  then show ?case by simp
next
  case (Cons e es)
  from Cons.prems have "P (fst (step rv cfg srv e))"
    by (rule assms(2))
  with Cons.IH show ?case
    unfolding run_Cons by simp
qed

text \<open>The example states are states of the process: both are reached from its start.\<close>

lemma example_server_reached:
  "fst (run StreamUrl example_config init
     [PostSession ''s-1'' example_body, WsConnection (Some ''s-1''),
      TwilioMessage 0 (Json (Start (Some example_start)))]) = example_server"
  by (simp add: handler_defs example_defs)

lemma restarted_server_reached:
  "fst (run StreamUrl example_config init
     [PostSession ''s-1'' example_body, WsConnection (Some ''s-1''),
      TwilioMessage 0 (Json (Start (Some example_start))),
      TwilioMessage 0 (Json (Start (Some example_start)))]) = restarted_server"
  by (simp add: handler_defs example_defs)

lemma ready_server_reached:
  "fst (run StreamUrl example_config init
     [PostSession ''s-1'' example_body, WsConnection (Some ''s-1''),
      TwilioMessage 0 (Json (Start (Some example_start))), OpenaiOpen 0 0]) = ready_server"
  by (simp add: handler_defs example_defs)

subsection \<open>handleCallEnd\<close>


lemma seconds_rounded_near: "\<bar>1000 * seconds_rounded ms - ms\<bar> \<le> 500"
proof -
  have "ms + 500 = 1000 * ((ms + 500) div 1000) + (ms + 500) mod 1000"
    by simp
  moreover have "0 \<le> (ms + 500) mod 1000" and "(ms + 500) mod 1000 < 1000"
    by simp_all
  ultimately show ?thesis
    unfolding seconds_rounded_def by linarith
qed

lemma seconds_rounded_bounds:
  "ms - 500 < 1000 * seconds_rounded ms" "1000 * seconds_rounded ms \<le> ms + 500"
proof -
  have "ms + 500 = 1000 * ((ms + 500) div 1000) + (ms + 500) mod 1000"
    by simp
  moreover have "0 \<le> (ms + 500) mod 1000" and "(ms + 500) mod 1000 < 1000"
    by simp_all
  ultimately show "ms - 500 < 1000 * seconds_rounded ms"
    and "1000 * seconds_rounded ms \<le> ms + 500"
    unfolding seconds_rounded_def by linarith+
qed

lemma seconds_rounded_nonneg: "0 \<le> ms \<Longrightarrow> 0 \<le> seconds_rounded ms"
  by (simp add: seconds_rounded_def)

lemma handleCallEnd_noop:
  "sessions_get srv sid = None \<or> (\<exists>r. sessions_get srv sid = Some r \<and> ended (objs srv r))
     \<Longrightarrow> handleCallEnd cfg sid csid srv = (srv, [])"
  by (auto simp: handleCallEnd_def)

lemma handleCallEnd_first:
  assumes "sessions_get srv sid = Some r" and "\<not> ended (objs srv r)"
  shows "handleCallEnd cfg sid csid srv =
     (if truthy (SUPABASE_URL cfg) \<and> truthy (SUPABASE_ANON_KEY cfg) \<and> truthy (callId (objs srv r))
      then (srv\<lparr>objs := (objs srv)(r := (objs srv r)\<lparr>ended := True\<rparr>),
                awaiting := awaiting srv @ [(AtFetch, sid)]\<rparr>,
            [Console Info,
             Fetch \<lparr>report_type = ''openai-realtime-end'',
                    report_callId = callId (objs srv r),
                    report_callSid = csid,
                    report_transcript = transcriptStr (transcript (objs srv r)),
                    report_duration = seconds_rounded (clock srv - createdAt (objs srv r)),
                    report_endedReason = ''call_ended''\<rparr>])
      else (srv\<lparr>objs := (objs srv)(r := (objs srv r)\<lparr>ended := True\<rparr>),
                timers := timers srv @ [(uptime srv + grace_period, sid)]\<rparr>,
            [Console Info, SetTimeout sid grace_period]))"
  using assms by (simp add: handleCallEnd_def schedule_delete_def Let_def)

lemma handleCallEnd_settled_eq:
  "handleCallEnd_settled rv out sid srv =
     (if rv = StreamParameter \<and> out = Responded False
      then (srv\<lparr>awaiting := awaiting srv @ [(AtText, sid)]\<rparr>, [])
      else (srv\<lparr>timers := timers srv @ [(uptime srv + grace_period, sid)]\<rparr>,
            [Console (if out = Responded True then Info else Error),
             SetTimeout sid grace_period]))"
  by (cases out; cases rv) (auto simp: handleCallEnd_settled_def schedule_delete_def)

lemma handleCallEnd_text_settled_eq:
  "handleCallEnd_text_settled resolved sid srv =
     (srv\<lparr>timers := timers srv @ [(uptime srv + grace_period, sid)]\<rparr>,
      [Console Error, SetTimeout sid grace_period])"
  by (simp add: handleCallEnd_text_settled_def schedule_delete_def)

lemma join_snoc:
  "join sep (xs @ [x]) = (if xs = [] then x else join sep xs @ sep @ x)"
  by (induction sep xs rule: join.induct) auto

subsection \<open>A session that has ended stays ended\<close>


lemma grows_refl: "grows srv srv"
  by (simp add: grows_def)

lemma grows_conns: "grows srv srv1 \<Longrightarrow> grows srv (srv1\<lparr>conns := cs\<rparr>)"
  by (simp add: grows_def)

lemma grows_handleCallEnd: "grows srv (fst (handleCallEnd cfg sid csid srv))"
  by (auto simp: grows_def handleCallEnd_def schedule_delete_def Let_def split: option.splits)

lemma grows_push_if_present: "grows srv (fst (push_if_present ro t c srv))"
  by (auto simp: grows_def push_if_present_def transcript_push_def split: option.splits)

lemma grows_handleOpenAIEvent: "grows srv (fst (handleOpenAIEvent rv i ev c srv))"
  by (cases ev)
    (auto simp: handleOpenAIEvent_def grows_refl grows_push_if_present Let_def split: option.splits)

lemma grows_openai_on_message: "grows srv (fst (openai_on_message rv i fr c srv))"
proof (cases fr)
  case Unparseable
  then show ?thesis by (simp add: openai_on_message_def grows_refl)
next
  case (Json ev)
  obtain srv1 effs k where h: "handleOpenAIEvent rv i ev c srv = (srv1, effs, k)"
    by (metis prod_cases3)
  then have "grows srv srv1"
    using grows_handleOpenAIEvent [of srv rv i ev c] by simp
  with Json h show ?thesis
    by (cases k) (simp_all add: openai_on_message_def)
qed

lemma grows_twilio_on_message: "grows srv (fst (snd (twilio_on_message rv cfg i fr c srv)))"
proof (cases fr)
  case Unparseable
  then show ?thesis by (simp add: twilio_on_message_def grows_refl)
next
  case (Json m)
  show ?thesis
  proof (cases m)
    case Stop
    with Json show ?thesis
      using grows_handleCallEnd [of srv cfg "sessionId c" "callSid c"]
      by (cases "handleCallEnd cfg (sessionId c) (callSid c) srv") (simp add: twilio_on_message_def)
  qed (use Json in \<open>auto simp: twilio_on_message_def grows_refl split: option.splits prod.splits\<close>)
qed

lemma grows_twilio_on_close: "grows srv (fst (snd (twilio_on_close rv cfg i c srv)))"
  using grows_handleCallEnd [of srv cfg "sessionId c" "callSid c"]
  by (cases "handleCallEnd cfg (sessionId c) (callSid c) srv") (simp add: twilio_on_close_def Let_def)

lemma grows_with_conn:
  assumes "\<And>c. grows srv (fst (snd (f c)))"
  shows "grows srv (fst (with_conn i srv f))"
proof -
  have "grows srv (srv1\<lparr>conns := cs\<rparr>)" if "f c = (c1, srv1, effs)" for c c1 srv1 effs cs
    using assms [of c] that by (simp add: grows_conns)
  then show ?thesis
    by (auto simp: with_conn_def grows_refl split: option.splits prod.splits)
qed

lemma grows_with_socket:
  assumes "\<And>c. grows srv (fst (snd (f c)))"
  shows "grows srv (fst (with_socket i h srv f))"
  unfolding with_socket_def
  by (rule grows_with_conn) (simp add: assms grows_refl)

lemma grows_step: "grows srv (fst (step rv cfg srv e))"
proof (cases e)
  case (PostSession uuid b)
  then show ?thesis by (simp add: step_def post_session_def grows_def)
next
  case (WsConnection q)
  then show ?thesis by (simp add: step_def wss_on_connection_def grows_def Let_def split: revision.splits)
next
  case (TwilioMessage i fr)
  then show ?thesis by (simp add: step_def grows_with_conn grows_twilio_on_message)
next
  case (TwilioClosed i)
  then show ?thesis by (simp add: step_def grows_with_conn grows_twilio_on_close)
next
  case (TwilioError i)
  then show ?thesis by (simp add: step_def grows_refl)
next
  case (OpenaiOpen i h)
  then show ?thesis
    by (simp add: step_def) (rule grows_with_socket, simp add: grows_refl split: prod.splits)
next
  case (OpenaiMessage i h fr)
  have "grows srv (fst (snd (case openai_on_message rv i fr c srv of (srv1, effs) \<Rightarrow> (c, srv1, effs))))" for c
    using grows_openai_on_message [of srv rv i fr c] by (simp split: prod.splits)
  with OpenaiMessage show ?thesis
    by (simp add: step_def grows_with_socket)
next
  case (OpenaiClosed i h)
  then show ?thesis
    by (simp add: step_def) (rule grows_with_socket, simp add: grows_refl split: prod.splits)
next
  case (OpenaiError i h)
  then show ?thesis
    by (simp add: step_def) (rule grows_with_socket, simp add: grows_refl split: prod.splits)
next
  case (FetchSettled k out)
  then show ?thesis
    by (simp add: step_def handleCallEnd_settled_eq grows_def)
next
  case (TextSettled k resolved)
  then show ?thesis
    by (simp add: step_def handleCallEnd_text_settled_eq grows_def)
next
  case (TimerFired k)
  then show ?thesis
    by (auto simp: step_def sessions_delete_def grows_def split: option.splits)
next
  case SweepTick
  then show ?thesis by (simp add: step_def sweep_def grows_def)
next
  case (Advance d)
  then show ?thesis by (simp add: step_def grows_def)
next
  case (SetClock t)
  then show ?thesis by (simp add: step_def grows_def)
qed

subsection \<open>Reports\<close>


lemma fetches_simps [simp]:
  "fetches [] = 0"
  "fetches (Fetch b # effs) = Suc (fetches effs)"
  "fetches (Console k # effs) = fetches effs"
  "fetches (TwilioSend i t # effs) = fetches effs"
  "fetches (TwilioClose i # effs) = fetches effs"
  "fetches (NewWebSocket i h # effs) = fetches effs"
  "fetches (OpenaiSend i h m # effs) = fetches effs"
  "fetches (OpenaiClose i h # effs) = fetches effs"
  "fetches (SetTimeout sid d # effs) = fetches effs"
  "fetches (ResJson u # effs) = fetches effs"
  "fetches (UncaughtException # effs) = fetches effs"
  "fetches (xs @ ys) = fetches xs + fetches ys"
  by (simp_all add: fetches_def)

lemma handleCallEnd_fetches:
  "fetches (snd (handleCallEnd cfg sid csid srv)) \<le> 1"
  "0 < fetches (snd (handleCallEnd cfg sid csid srv)) \<Longrightarrow>
     \<exists>r. sessions_get srv sid = Some r \<and> \<not> ended (objs srv r) \<and>
         ended (objs (fst (handleCallEnd cfg sid csid srv)) r)"
  by (auto simp: handleCallEnd_def schedule_delete_def Let_def split: option.splits)

lemma twilio_on_message_fetches:
  "fetches (snd (snd (twilio_on_message rv cfg i fr c srv))) \<le> 1"
  "0 < fetches (snd (snd (twilio_on_message rv cfg i fr c srv))) \<Longrightarrow>
     \<exists>sid r. sessions_get srv sid = Some r \<and> \<not> ended (objs srv r) \<and>
         ended (objs (fst (snd (twilio_on_message rv cfg i fr c srv))) r)"
proof -
  let ?h = "handleCallEnd cfg (sessionId c) (callSid c) srv"
  have other: "fr \<noteq> Json Stop \<Longrightarrow> fetches (snd (snd (twilio_on_message rv cfg i fr c srv))) = 0"
    by (auto simp: twilio_on_message_def twilio_start_def twilio_media_def connectOpenAI_def
          openaiWs_send_def Let_def
        split: frame.splits twilio_msg.splits option.splits prod.splits revision.splits)
  have stop: "fr = Json Stop \<Longrightarrow>
      fetches (snd (snd (twilio_on_message rv cfg i fr c srv))) = fetches (snd ?h) \<and>
      fst (snd (twilio_on_message rv cfg i fr c srv)) = fst ?h"
    by (cases ?h) (simp add: twilio_on_message_def)
  show "fetches (snd (snd (twilio_on_message rv cfg i fr c srv))) \<le> 1"
    using other stop handleCallEnd_fetches(1) [of cfg "sessionId c" "callSid c" srv]
    by (cases "fr = Json Stop") auto
  assume pos: "0 < fetches (snd (snd (twilio_on_message rv cfg i fr c srv)))"
  then have "fr = Json Stop" using other by auto
  with pos stop handleCallEnd_fetches(2) [of cfg "sessionId c" "callSid c" srv]
  show "\<exists>sid r. sessions_get srv sid = Some r \<and> \<not> ended (objs srv r) \<and>
         ended (objs (fst (snd (twilio_on_message rv cfg i fr c srv))) r)"
    by auto
qed

lemma twilio_on_close_fetches:
  "fetches (snd (snd (twilio_on_close rv cfg i c srv))) \<le> 1"
  "0 < fetches (snd (snd (twilio_on_close rv cfg i c srv))) \<Longrightarrow>
     \<exists>sid r. sessions_get srv sid = Some r \<and> \<not> ended (objs srv r) \<and>
         ended (objs (fst (snd (twilio_on_close rv cfg i c srv))) r)"
proof -
  let ?h = "handleCallEnd cfg (sessionId c) (callSid c) srv"
  have eq: "fetches (snd (snd (twilio_on_close rv cfg i c srv))) = fetches (snd ?h) \<and>
      fst (snd (twilio_on_close rv cfg i c srv)) = fst ?h"
    by (cases ?h) (simp add: twilio_on_close_def Let_def)
  show "fetches (snd (snd (twilio_on_close rv cfg i c srv))) \<le> 1"
    using eq handleCallEnd_fetches(1) [of cfg "sessionId c" "callSid c" srv] by simp
  assume "0 < fetches (snd (snd (twilio_on_close rv cfg i c srv)))"
  with eq handleCallEnd_fetches(2) [of cfg "sessionId c" "callSid c" srv]
  show "\<exists>sid r. sessions_get srv sid = Some r \<and> \<not> ended (objs srv r) \<and>
         ended (objs (fst (snd (twilio_on_close rv cfg i c srv))) r)"
    by auto
qed

lemma with_conn_cases:
  assumes "with_conn i srv f = (srv', effs)"
  obtains (skipped) "srv' = srv" "effs = []"
  | (handled) c c1 srv1 where "conn_at srv i = Some c" "f c = (c1, srv1, effs)"
      "srv' = srv1\<lparr>conns := (conns srv1)[i := Some c1]\<rparr>"
  using assms
  by (auto simp: with_conn_def conn_at_def split: if_splits option.splits prod.splits)

lemma with_conn_quiet:
  assumes "\<And>c. fetches (snd (snd (f c))) = 0"
  shows "fetches (snd (with_conn i srv f)) = 0"
proof -
  obtain srv' effs where w: "with_conn i srv f = (srv', effs)"
    by (cases "with_conn i srv f")
  then show ?thesis
  proof (cases rule: with_conn_cases)
    case skipped
    with w show ?thesis by simp
  next
    case (handled c c1 srv1)
    with w assms [of c] show ?thesis by simp
  qed
qed

lemma with_conn_fetches:
  assumes "\<And>c. fetches (snd (snd (f c))) \<le> 1"
    and "\<And>c. 0 < fetches (snd (snd (f c))) \<Longrightarrow>
           \<exists>sid r. sessions_get srv sid = Some r \<and> \<not> ended (objs srv r) \<and>
             ended (objs (fst (snd (f c))) r)"
  shows "fetches (snd (with_conn i srv f)) \<le> 1"
    and "0 < fetches (snd (with_conn i srv f)) \<Longrightarrow>
           \<exists>sid r. sessions_get srv sid = Some r \<and> \<not> ended (objs srv r) \<and>
             ended (objs (fst (with_conn i srv f)) r)"
proof -
  obtain srv' effs where w: "with_conn i srv f = (srv', effs)"
    by (cases "with_conn i srv f")
  then show "fetches (snd (with_conn i srv f)) \<le> 1"
  proof (cases rule: with_conn_cases)
    case skipped
    with w show ?thesis by simp
  next
    case (handled c c1 srv1)
    with w assms(1) [of c] show ?thesis by simp
  qed
  assume pos: "0 < fetches (snd (with_conn i srv f))"
  from w show "\<exists>sid r. sessions_get srv sid = Some r \<and> \<not> ended (objs srv r) \<and>
             ended (objs (fst (with_conn i srv f)) r)"
  proof (cases rule: with_conn_cases)
    case skipped
    with w pos show ?thesis by simp
  next
    case (handled c c1 srv1)
    with w pos assms(2) [of c] show ?thesis by simp
  qed
qed

lemma step_fetches:
  "fetches (snd (step rv cfg srv e)) \<le> 1"
  "0 < fetches (snd (step rv cfg srv e)) \<Longrightarrow>
     \<exists>sid r. sessions_get srv sid = Some r \<and> \<not> ended (objs srv r) \<and>
       ended (objs (fst (step rv cfg srv e)) r)"
proof -
  have quiet: "fetches (snd (step rv cfg srv e)) = 0"
    if "\<forall>i fr. e \<noteq> TwilioMessage i fr" and "\<forall>i. e \<noteq> TwilioClosed i"
    using that
    by (cases e)
      (auto simp: step_def post_session_def wss_on_connection_def with_socket_def
          twilio_on_error_def openai_on_open_def openai_on_message_def openai_on_close_def
          openai_on_error_def handleOpenAIEvent_def push_if_present_def openaiWs_send_def
          handleCallEnd_settled_eq handleCallEnd_text_settled_eq Let_def
        intro!: with_conn_quiet
        split: revision.splits option.splits prod.splits frame.splits openai_msg.splits
          completion.splits)
  show "fetches (snd (step rv cfg srv e)) \<le> 1"
  proof (cases e)
    case (TwilioMessage i fr)
    then show ?thesis
      using with_conn_fetches(1) [of "\<lambda>c. twilio_on_message rv cfg i fr c srv" srv i]
        twilio_on_message_fetches [of rv cfg i fr _ srv]
      by (simp add: step_def)
  next
    case (TwilioClosed i)
    then show ?thesis
      using with_conn_fetches(1) [of "\<lambda>c. twilio_on_close rv cfg i c srv" srv i]
        twilio_on_close_fetches [of rv cfg i _ srv]
      by (simp add: step_def)
  qed (use quiet in auto)
  assume pos: "0 < fetches (snd (step rv cfg srv e))"
  show "\<exists>sid r. sessions_get srv sid = Some r \<and> \<not> ended (objs srv r) \<and>
       ended (objs (fst (step rv cfg srv e)) r)"
  proof (cases e)
    case (TwilioMessage i fr)
    then show ?thesis
      using pos with_conn_fetches(2) [of "\<lambda>c. twilio_on_message rv cfg i fr c srv" srv i]
        twilio_on_message_fetches [of rv cfg i fr _ srv]
      by (simp add: step_def)
  next
    case (TwilioClosed i)
    then show ?thesis
      using pos with_conn_fetches(2) [of "\<lambda>c. twilio_on_close rv cfg i c srv" srv i]
        twilio_on_close_fetches [of rv cfg i _ srv]
      by (simp add: step_def)
  qed (use quiet pos in auto)
qed

lemma once_ended:
  "r < nextRef srv \<Longrightarrow> ended (objs srv r) \<Longrightarrow>
     transitions rv cfg r srv es = 0 \<and> reports rv cfg r srv es = 0"
proof (induction es arbitrary: srv)
  case Nil
  then show ?case by simp
next
  case (Cons e es)
  have g: "grows srv (fst (step rv cfg srv e))"
    by (rule grows_step)
  with Cons.prems have "r < nextRef (fst (step rv cfg srv e))"
    and "ended (objs (fst (step rv cfg srv e)) r)"
    by (auto simp: grows_def)
  with Cons.IH Cons.prems show ?case by simp
qed

lemma at_most_once:
  "r < nextRef srv \<Longrightarrow> transitions rv cfg r srv es \<le> 1 \<and> reports rv cfg r srv es \<le> 1"
proof (induction es arbitrary: srv)
  case Nil
  then show ?case by simp
next
  case (Cons e es)
  let ?s = "fst (step rv cfg srv e)"
  have g: "grows srv ?s" by (rule grows_step)
  with Cons.prems have r: "r < nextRef ?s" by (auto simp: grows_def)
  show ?case
  proof (cases "\<not> ended (objs srv r) \<and> ended (objs ?s r)")
    case True
    with r once_ended [of r ?s rv cfg es] step_fetches(1) [of rv cfg srv e]
    show ?thesis by simp
  next
    case False
    with Cons.IH [OF r] show ?thesis by auto
  qed
qed

subsection \<open>The registry\<close>


lemma shrinks_refl: "shrinks srv srv"
  by (simp add: shrinks_def)

lemma shrinks_conns: "shrinks srv srv1 \<Longrightarrow> shrinks srv (srv1\<lparr>conns := cs\<rparr>)"
  by (simp add: shrinks_def)

lemma shrinks_handleCallEnd: "shrinks srv (fst (handleCallEnd cfg sid csid srv))"
  by (auto simp: shrinks_def handleCallEnd_def schedule_delete_def Let_def split: option.splits)

lemma shrinks_handleOpenAIEvent: "shrinks srv (fst (handleOpenAIEvent rv i ev c srv))"
  by (cases ev)
    (auto simp: handleOpenAIEvent_def push_if_present_def transcript_push_def shrinks_def Let_def
      split: option.splits)

lemma shrinks_openai_on_message: "shrinks srv (fst (openai_on_message rv i fr c srv))"
proof (cases fr)
  case Unparseable
  then show ?thesis by (simp add: openai_on_message_def shrinks_refl)
next
  case (Json ev)
  obtain srv1 effs k where h: "handleOpenAIEvent rv i ev c srv = (srv1, effs, k)"
    by (metis prod_cases3)
  then have "shrinks srv srv1"
    using shrinks_handleOpenAIEvent [of srv rv i ev c] by simp
  with Json h show ?thesis
    by (cases k) (simp_all add: openai_on_message_def)
qed

lemma shrinks_twilio_on_message: "shrinks srv (fst (snd (twilio_on_message rv cfg i fr c srv)))"
proof (cases fr)
  case Unparseable
  then show ?thesis by (simp add: twilio_on_message_def shrinks_refl)
next
  case (Json m)
  show ?thesis
  proof (cases m)
    case Stop
    with Json show ?thesis
      using shrinks_handleCallEnd [of srv cfg "sessionId c" "callSid c"]
      by (cases "handleCallEnd cfg (sessionId c) (callSid c) srv") (simp add: twilio_on_message_def)
  qed (use Json in \<open>auto simp: twilio_on_message_def shrinks_refl split: option.splits prod.splits\<close>)
qed

lemma shrinks_twilio_on_close: "shrinks srv (fst (snd (twilio_on_close rv cfg i c srv)))"
  using shrinks_handleCallEnd [of srv cfg "sessionId c" "callSid c"]
  by (cases "handleCallEnd cfg (sessionId c) (callSid c) srv") (simp add: twilio_on_close_def Let_def)

lemma shrinks_with_conn:
  assumes "\<And>c. shrinks srv (fst (snd (f c)))"
  shows "shrinks srv (fst (with_conn i srv f))"
proof -
  have "shrinks srv (srv1\<lparr>conns := cs\<rparr>)" if "f c = (c1, srv1, effs)" for c c1 srv1 effs cs
    using assms [of c] that by (simp add: shrinks_conns)
  then show ?thesis
    by (auto simp: with_conn_def shrinks_refl split: option.splits prod.splits)
qed

lemma shrinks_with_socket:
  assumes "\<And>c. shrinks srv (fst (snd (f c)))"
  shows "shrinks srv (fst (with_socket i h srv f))"
  unfolding with_socket_def
  by (rule shrinks_with_conn) (simp add: assms shrinks_refl)

lemma shrinks_step:
  assumes "\<forall>uuid b. e \<noteq> PostSession uuid b"
  shows "shrinks srv (fst (step rv cfg srv e))"
proof (cases e)
  case (PostSession uuid b)
  with assms show ?thesis by simp
next
  case (WsConnection q)
  then show ?thesis
    by (simp add: step_def wss_on_connection_def shrinks_def Let_def split: revision.splits)
next
  case (TwilioMessage i fr)
  then show ?thesis by (simp add: step_def shrinks_with_conn shrinks_twilio_on_message)
next
  case (TwilioClosed i)
  then show ?thesis by (simp add: step_def shrinks_with_conn shrinks_twilio_on_close)
next
  case (TwilioError i)
  then show ?thesis by (simp add: step_def shrinks_refl)
next
  case (OpenaiOpen i h)
  then show ?thesis
    by (simp add: step_def) (rule shrinks_with_socket, simp add: shrinks_refl split: prod.splits)
next
  case (OpenaiMessage i h fr)
  have "shrinks srv (fst (snd (case openai_on_message rv i fr c srv of (srv1, effs) \<Rightarrow> (c, srv1, effs))))" for c
    using shrinks_openai_on_message [of srv rv i fr c] by (simp split: prod.splits)
  with OpenaiMessage show ?thesis
    by (simp add: step_def shrinks_with_socket)
next
  case (OpenaiClosed i h)
  then show ?thesis
    by (simp add: step_def) (rule shrinks_with_socket, simp add: shrinks_refl split: prod.splits)
next
  case (OpenaiError i h)
  then show ?thesis
    by (simp add: step_def) (rule shrinks_with_socket, simp add: shrinks_refl split: prod.splits)
next
  case (FetchSettled k out)
  then show ?thesis
    by (simp add: step_def handleCallEnd_settled_eq shrinks_def)
next
  case (TextSettled k resolved)
  then show ?thesis
    by (simp add: step_def handleCallEnd_text_settled_eq shrinks_def)
next
  case (TimerFired k)
  then show ?thesis
    by (auto simp: step_def sessions_delete_def shrinks_def split: option.splits)
next
  case SweepTick
  then show ?thesis by (auto simp: step_def sweep_def shrinks_def split: option.splits)
next
  case (Advance d)
  then show ?thesis by (simp add: step_def shrinks_def)
next
  case (SetClock t)
  then show ?thesis by (simp add: step_def shrinks_def)
qed

lemma registry_ok_step: "registry_ok srv \<Longrightarrow> registry_ok (fst (step rv cfg srv e))"
proof (cases "\<exists>uuid b. e = PostSession uuid b")
  case True
  assume "registry_ok srv"
  with True show ?thesis
    by (auto simp: step_def post_session_def registry_ok_def less_Suc_eq split: if_splits)
next
  case False
  assume ok: "registry_ok srv"
  from False have "shrinks srv (fst (step rv cfg srv e))"
    by (intro shrinks_step) simp
  then have n: "nextRef (fst (step rv cfg srv e)) = nextRef srv"
    and k: "\<And>k. sessions (fst (step rv cfg srv e)) k = None \<or>
             sessions (fst (step rv cfg srv e)) k = sessions srv k"
    by (simp_all add: shrinks_def)
  show ?thesis
    unfolding registry_ok_def
  proof (intro allI impI)
    fix k r
    assume "sessions (fst (step rv cfg srv e)) k = Some r"
    with k [of k] have "sessions srv k = Some r" by auto
    with ok n show "r < nextRef (fst (step rv cfg srv e))"
      by (simp add: registry_ok_def)
  qed
qed

lemma registry_ok_init: "registry_ok init"
  by (simp add: registry_ok_def init_def)

lemma registry_ok_run: "registry_ok srv \<Longrightarrow> registry_ok (fst (run rv cfg srv es))"
  by (rule run_invariant) (simp_all add: registry_ok_step)


subsection \<open>Opening the AI leg\<close>


lemma opens_ai_simps [simp]:
  "opens_ai i [] = False"
  "opens_ai i (NewWebSocket j h # effs) = (j = i \<or> opens_ai i effs)"
  "opens_ai i (Fetch b # effs) = opens_ai i effs"
  "opens_ai i (Console k # effs) = opens_ai i effs"
  "opens_ai i (TwilioSend j t # effs) = opens_ai i effs"
  "opens_ai i (TwilioClose j # effs) = opens_ai i effs"
  "opens_ai i (OpenaiSend j h m # effs) = opens_ai i effs"
  "opens_ai i (OpenaiClose j h # effs) = opens_ai i effs"
  "opens_ai i (SetTimeout sid d # effs) = opens_ai i effs"
  "opens_ai i (ResJson u # effs) = opens_ai i effs"
  "opens_ai i (UncaughtException # effs) = opens_ai i effs"
  "opens_ai i (xs @ ys) = (opens_ai i xs \<or> opens_ai i ys)"
  by (simp_all add: opens_ai_def)

lemma handleCallEnd_opens: "\<not> opens_ai i (snd (handleCallEnd cfg sid csid srv))"
  by (auto simp: handleCallEnd_def schedule_delete_def Let_def split: option.splits)

lemma twilio_start_failed:
  assumes "\<not> resolves StreamParameter srv c p"
  shows "twilio_start StreamParameter i p c srv =
     (c\<lparr>streamSid := start_streamSid p, callSid := start_callSid p,
        sessionId := (case customParameters p of
                        Some (Some k) \<Rightarrow> if k \<noteq> [] then Some k else sessionId c
                      | _ \<Rightarrow> sessionId c)\<rparr>,
      [Console Error, TwilioClose i])"
  using assms
  by (auto simp: twilio_start_def resolves_def truthy_def sessions_get_def Let_def
      split: option.splits)

lemma twilio_start_opens:
  "opens_ai j (snd (twilio_start rv i p c srv)) = (j = i \<and> resolves rv srv c p)"
  by (auto simp: twilio_start_def resolves_def connectOpenAI_def truthy_def sessions_get_def Let_def
      split: option.splits revision.splits)

lemma twilio_start_leg:
  "\<not> resolves rv srv c p \<Longrightarrow> openaiWs (fst (twilio_start rv i p c srv)) = openaiWs c"
  by (auto simp: twilio_start_def resolves_def connectOpenAI_def truthy_def sessions_get_def Let_def
      split: option.splits revision.splits)

lemma twilio_on_message_opens:
  "opens_ai j (snd (snd (twilio_on_message rv cfg i fr c srv))) =
     (j = i \<and> (\<exists>p. fr = Json (Start (Some p)) \<and> resolves rv srv c p))"
proof (cases fr)
  case Unparseable
  then show ?thesis by (simp add: twilio_on_message_def)
next
  case (Json m)
  show ?thesis
  proof (cases m)
    case Connected
    with Json show ?thesis by (simp add: twilio_on_message_def)
  next
    case (Start po)
    with Json show ?thesis
      by (cases po) (auto simp: twilio_on_message_def twilio_start_opens case_prod_beta)
  next
    case (Media mp)
    with Json show ?thesis
      by (auto simp: twilio_on_message_def twilio_media_def openaiWs_send_def split: option.splits)
  next
    case Stop
    with Json show ?thesis
      by (simp add: twilio_on_message_def case_prod_beta handleCallEnd_opens)
  next
    case TwilioOther
    with Json show ?thesis by (simp add: twilio_on_message_def)
  qed
qed

lemma twilio_on_message_leg:
  assumes "\<forall>p. fr = Json (Start (Some p)) \<longrightarrow> \<not> resolves rv srv c p"
  shows "openaiWs (fst (twilio_on_message rv cfg i fr c srv)) = openaiWs c"
proof (cases fr)
  case Unparseable
  then show ?thesis by (simp add: twilio_on_message_def)
next
  case (Json m)
  show ?thesis
  proof (cases m)
    case (Start po)
    with Json assms show ?thesis
      by (cases po) (auto simp: twilio_on_message_def twilio_start_leg case_prod_beta)
  qed (use Json in \<open>auto simp: twilio_on_message_def case_prod_beta\<close>)
qed

lemma twilio_on_close_quiet:
  "\<not> opens_ai j (snd (snd (twilio_on_close rv cfg i c srv)))"
  "openaiWs (fst (twilio_on_close rv cfg i c srv)) = openaiWs c"
  by (simp_all add: twilio_on_close_def Let_def case_prod_beta handleCallEnd_opens)

lemma openai_handlers_quiet:
  "\<not> opens_ai j (snd (openai_on_open i h c srv))"
  "openaiWs (fst (openai_on_open i h c srv)) = openaiWs c"
  "\<not> opens_ai j (snd (openai_on_message rv i fr c srv))"
  "\<not> opens_ai j (snd (openai_on_close rv h c))"
  "openaiWs (fst (openai_on_close rv h c)) = openaiWs c"
  by (auto simp: openai_on_open_def openai_on_message_def openai_on_close_def
      handleOpenAIEvent_def push_if_present_def openaiWs_send_def Let_def
      split: option.splits frame.splits openai_msg.splits completion.splits prod.splits)

lemma conn_at_update:
  "conn_at (srv\<lparr>conns := (conns srv)[j := x]\<rparr>) i =
     (if i = j \<and> j < length (conns srv) then x else conn_at srv i)"
  by (simp add: conn_at_def)

lemma with_conn_leg:
  assumes same: "\<And>c. conns (fst (snd (f c))) = conns srv"
  shows "ai_leg (fst (with_conn j srv f)) i =
     (if i = j then (case conn_at srv j of None \<Rightarrow> None | Some c \<Rightarrow> openaiWs (fst (f c)))
      else ai_leg srv i)"
proof -
  have "conns srv1 = conns srv" if "f c = (c1, srv1, effs)" for c c1 srv1 effs
    using same [of c] that by simp
  then show ?thesis
    by (auto simp: with_conn_def ai_leg_def conn_at_def split: option.splits prod.splits)
qed

lemma with_conn_opens:
  "opens_ai i (snd (with_conn j srv f)) =
     (case conn_at srv j of None \<Rightarrow> False | Some c \<Rightarrow> opens_ai i (snd (snd (f c))))"
  by (auto simp: with_conn_def conn_at_def split: option.splits prod.splits)

lemma conns_handleCallEnd: "conns (fst (handleCallEnd cfg sid csid srv)) = conns srv"
  by (auto simp: handleCallEnd_def schedule_delete_def Let_def split: option.splits)

lemma conns_twilio_on_message: "conns (fst (snd (twilio_on_message rv cfg i fr c srv))) = conns srv"
  by (auto simp: twilio_on_message_def case_prod_beta conns_handleCallEnd
      split: frame.splits twilio_msg.splits option.splits)

lemma conns_twilio_on_close: "conns (fst (snd (twilio_on_close rv cfg i c srv))) = conns srv"
  by (simp add: twilio_on_close_def Let_def case_prod_beta conns_handleCallEnd)

lemma conns_openai_on_message: "conns (fst (openai_on_message rv i fr c srv)) = conns srv"
  by (auto simp: openai_on_message_def handleOpenAIEvent_def push_if_present_def
      transcript_push_def Let_def
      split: option.splits frame.splits openai_msg.splits completion.splits prod.splits)

lemma ai_leg_conns:
  "ai_leg (srv\<lparr>sessions := a\<rparr>) i = ai_leg srv i"
  "ai_leg (srv\<lparr>objs := b\<rparr>) i = ai_leg srv i"
  "ai_leg (srv\<lparr>nextRef := n\<rparr>) i = ai_leg srv i"
  "ai_leg (srv\<lparr>awaiting := aw\<rparr>) i = ai_leg srv i"
  "ai_leg (srv\<lparr>timers := ts\<rparr>) i = ai_leg srv i"
  "ai_leg (srv\<lparr>clock := t\<rparr>) i = ai_leg srv i"
  "ai_leg (srv\<lparr>uptime := u\<rparr>) i = ai_leg srv i"
  by (simp_all add: ai_leg_def conn_at_def)

lemma with_conn_leg_None:
  assumes "\<And>c. conns (fst (snd (f c))) = conns srv"
    and "\<And>c. conn_at srv j = Some c \<Longrightarrow> i = j \<Longrightarrow> openaiWs (fst (f c)) = openaiWs c"
    and "ai_leg srv i = None"
  shows "ai_leg (fst (with_conn j srv f)) i = None"
proof (cases "i = j")
  case False
  with assms(3) show ?thesis
    by (simp add: with_conn_leg [of f srv, OF assms(1)])
next
  case True
  show ?thesis
  proof (cases "conn_at srv j")
    case None
    with True show ?thesis
      by (simp add: with_conn_leg [of f srv, OF assms(1)])
  next
    case (Some c)
    with True assms(3) have "openaiWs c = None"
      by (simp add: ai_leg_def)
    with Some True assms(2) [of c] show ?thesis
      by (simp add: with_conn_leg [of f srv, OF assms(1)])
  qed
qed

lemma with_socket_leg_None:
  assumes "\<And>c. conns (fst (snd (f c))) = conns srv"
    and "\<And>c. openaiWs (fst (f c)) = openaiWs c"
    and "ai_leg srv i = None"
  shows "ai_leg (fst (with_socket j h srv f)) i = None"
  unfolding with_socket_def
  by (rule with_conn_leg_None) (simp_all add: assms)

lemma step_no_start:
  assumes "\<not> start_succeeds rv i srv e"
  shows "\<not> opens_ai i (snd (step rv cfg srv e))"
    and "ai_leg srv i = None \<Longrightarrow> ai_leg (fst (step rv cfg srv e)) i = None"
proof -
  show "\<not> opens_ai i (snd (step rv cfg srv e))"
  proof (cases e)
    case (TwilioMessage j fr)
    with assms show ?thesis
      by (auto simp: step_def with_conn_opens twilio_on_message_opens start_succeeds_def
          split: option.splits)
  next
    case (WsConnection q)
    then show ?thesis
      by (simp add: step_def wss_on_connection_def Let_def split: revision.splits)
  qed (auto simp: step_def with_conn_opens with_socket_def twilio_on_close_quiet
        openai_handlers_quiet twilio_on_error_def post_session_def handleCallEnd_settled_eq
        handleCallEnd_text_settled_eq openai_on_error_def case_prod_beta
      split: option.splits)
  assume leg: "ai_leg srv i = None"
  show "ai_leg (fst (step rv cfg srv e)) i = None"
  proof (cases e)
    case (PostSession uuid b)
    with leg show ?thesis
      by (simp add: step_def post_session_def ai_leg_conns)
  next
    case (WsConnection q)
    with leg show ?thesis
      by (auto simp: step_def wss_on_connection_def ai_leg_def conn_at_def new_connection_def
          Let_def nth_append split: revision.splits option.splits if_splits)
  next
    case (TwilioMessage j fr)
    have "ai_leg (fst (with_conn j srv (\<lambda>c. twilio_on_message rv cfg j fr c srv))) i = None"
    proof (rule with_conn_leg_None [OF _ _ leg])
      fix c
      show "conns (fst (snd (twilio_on_message rv cfg j fr c srv))) = conns srv"
        by (rule conns_twilio_on_message)
      assume "conn_at srv j = Some c" and "i = j"
      with assms TwilioMessage
      have "\<forall>p. fr = Json (Start (Some p)) \<longrightarrow> \<not> resolves rv srv c p"
        by (auto simp: start_succeeds_def)
      then show "openaiWs (fst (twilio_on_message rv cfg j fr c srv)) = openaiWs c"
        by (rule twilio_on_message_leg)
    qed
    with TwilioMessage show ?thesis by (simp add: step_def)
  next
    case (TwilioClosed j)
    have "ai_leg (fst (with_conn j srv (\<lambda>c. twilio_on_close rv cfg j c srv))) i = None"
      by (rule with_conn_leg_None [OF _ _ leg])
        (simp_all add: conns_twilio_on_close twilio_on_close_quiet)
    with TwilioClosed show ?thesis by (simp add: step_def)
  next
    case (TwilioError j)
    with leg show ?thesis by (simp add: step_def)
  next
    case (OpenaiOpen j h)
    have "ai_leg (fst (with_socket j h srv
            (\<lambda>c. case openai_on_open j h c srv of (c1, effs) \<Rightarrow> (c1, srv, effs)))) i = None"
      by (rule with_socket_leg_None [OF _ _ leg])
        (simp_all add: case_prod_beta openai_handlers_quiet)
    with OpenaiOpen show ?thesis by (simp add: step_def)
  next
    case (OpenaiMessage j h fr)
    have "ai_leg (fst (with_socket j h srv
            (\<lambda>c. case openai_on_message rv j fr c srv of (srv1, effs) \<Rightarrow> (c, srv1, effs)))) i = None"
      by (rule with_socket_leg_None [OF _ _ leg])
        (simp_all add: case_prod_beta conns_openai_on_message)
    with OpenaiMessage show ?thesis by (simp add: step_def)
  next
    case (OpenaiClosed j h)
    have "ai_leg (fst (with_socket j h srv
            (\<lambda>c. case openai_on_close rv h c of (c1, effs) \<Rightarrow> (c1, srv, effs)))) i = None"
      by (rule with_socket_leg_None [OF _ _ leg])
        (simp_all add: case_prod_beta openai_handlers_quiet)
    with OpenaiClosed show ?thesis by (simp add: step_def)
  next
    case (OpenaiError j h)
    have "ai_leg (fst (with_socket j h srv
            (\<lambda>c. case openai_on_error c of (c1, effs) \<Rightarrow> (c1, srv, effs)))) i = None"
      by (rule with_socket_leg_None [OF _ _ leg])
        (simp_all add: case_prod_beta openai_on_error_def)
    with OpenaiError show ?thesis by (simp add: step_def)
  next
    case (FetchSettled k out)
    with leg show ?thesis
      by (simp add: step_def handleCallEnd_settled_eq ai_leg_conns)
  next
    case (TextSettled k resolved)
    with leg show ?thesis
      by (simp add: step_def handleCallEnd_text_settled_eq ai_leg_conns)
  next
    case (TimerFired k)
    with leg show ?thesis
      by (auto simp: step_def sessions_delete_def ai_leg_conns split: option.splits)
  next
    case SweepTick
    with leg show ?thesis by (simp add: step_def sweep_def ai_leg_conns)
  next
    case (Advance d)
    with leg show ?thesis by (simp add: step_def ai_leg_conns)
  next
    case (SetClock t)
    with leg show ?thesis by (simp add: step_def ai_leg_conns)
  qed
qed

lemma never_starts_no_leg:
  "never_starts rv cfg i srv es \<Longrightarrow> ai_leg srv i = None \<Longrightarrow>
     \<not> opens_ai i (snd (run rv cfg srv es)) \<and> ai_leg (fst (run rv cfg srv es)) i = None"
proof (induction es arbitrary: srv)
  case Nil
  then show ?case by simp
next
  case (Cons e es)
  from Cons.prems have ns: "\<not> start_succeeds rv i srv e"
    and rest: "never_starts rv cfg i (fst (step rv cfg srv e)) es"
    by simp_all
  from step_no_start [OF ns] Cons.prems(2)
  have a: "\<not> opens_ai i (snd (step rv cfg srv e))"
    and b: "ai_leg (fst (step rv cfg srv e)) i = None"
    by simp_all
  from Cons.IH [OF rest b] a b show ?case
    unfolding run_Cons by simp
qed

subsection \<open>Repeated calls of handleCallEnd\<close>

lemma handleCallEnd_twice:
  "handleCallEnd cfg sid csid' (fst (handleCallEnd cfg sid csid srv)) =
     (fst (handleCallEnd cfg sid csid srv), [])"
proof (cases "sessions_get srv sid")
  case None
  then show ?thesis by (simp add: handleCallEnd_noop)
next
  case (Some r)
  show ?thesis
  proof (cases "ended (objs srv r)")
    case True
    with Some show ?thesis by (simp add: handleCallEnd_noop)
  next
    case False
    let ?s = "fst (handleCallEnd cfg sid csid srv)"
    from Some False have "sessions_get ?s sid = Some r \<and> ended (objs ?s r)"
      by (simp add: handleCallEnd_first sessions_get_def split: option.splits)
    then show ?thesis
      by (intro handleCallEnd_noop) blast
  qed
qed

lemma step_fetch_allocated:
  assumes "registry_ok srv" and "0 < fetches (snd (step rv cfg srv e))"
  shows "\<exists>r. r < nextRef srv \<and> \<not> ended (objs srv r) \<and> ended (objs (fst (step rv cfg srv e)) r)"
proof -
  from step_fetches(2) [OF assms(2)] obtain sid r
    where r: "sessions_get srv sid = Some r" "\<not> ended (objs srv r)"
      "ended (objs (fst (step rv cfg srv e)) r)"
    by blast
  from r(1) assms(1) have "r < nextRef srv"
    by (auto simp: sessions_get_def registry_ok_def split: option.splits)
  with r show ?thesis by blast
qed

subsection \<open>Refused connections and failed starts\<close>

lemma step_opens_iff: "opens_ai i (snd (step rv cfg srv e)) = start_succeeds rv i srv e"
proof (cases "start_succeeds rv i srv e")
  case False
  then show ?thesis by (simp add: step_no_start(1))
next
  case True
  then obtain p c where e: "e = TwilioMessage i (Json (Start (Some p)))"
    and c: "conn_at srv i = Some c" and r: "resolves rv srv c p"
    by (auto simp: start_succeeds_def
        split: event.splits frame.splits twilio_msg.splits option.splits)
  then have "opens_ai i (snd (step rv cfg srv e))"
    by (simp add: step_def with_conn_opens twilio_on_message_opens)
  with True show ?thesis by simp
qed

lemma refused_with_conn:
  assumes "\<And>c. conns (fst (snd (f c))) = conns srv" and "refused srv i"
  shows "refused (fst (with_conn j srv f)) i"
proof -
  have "conns srv1 = conns srv" if "f c = (c1, srv1, effs)" for c c1 srv1 effs
    using assms(1) [of c] that by simp
  with assms(2) show ?thesis
    by (auto simp: with_conn_def refused_def nth_list_update split: option.splits prod.splits)
qed

lemma refused_with_socket:
  assumes "\<And>c. conns (fst (snd (f c))) = conns srv" and "refused srv i"
  shows "refused (fst (with_socket j h srv f)) i"
  unfolding with_socket_def
  by (rule refused_with_conn) (simp_all add: assms)

lemma refused_step: "refused srv i \<Longrightarrow> refused (fst (step rv cfg srv e)) i"
proof (cases e)
  case (PostSession uuid b)
  assume "refused srv i"
  with PostSession show ?thesis by (simp add: step_def post_session_def refused_def)
next
  case (WsConnection q)
  assume "refused srv i"
  with WsConnection show ?thesis
    by (auto simp: step_def wss_on_connection_def refused_def Let_def nth_append
        split: revision.splits)
next
  case (TwilioMessage j fr)
  assume "refused srv i"
  with TwilioMessage show ?thesis
    by (simp add: step_def refused_with_conn conns_twilio_on_message)
next
  case (TwilioClosed j)
  assume "refused srv i"
  with TwilioClosed show ?thesis
    by (simp add: step_def refused_with_conn conns_twilio_on_close)
next
  case (TwilioError j)
  assume "refused srv i"
  with TwilioError show ?thesis
    by (simp add: step_def)
next
  case (OpenaiOpen j h)
  assume "refused srv i"
  with OpenaiOpen show ?thesis
    by (simp add: step_def refused_with_socket case_prod_beta)
next
  case (OpenaiMessage j h fr)
  assume "refused srv i"
  with OpenaiMessage show ?thesis
    by (simp add: step_def refused_with_socket case_prod_beta conns_openai_on_message)
next
  case (OpenaiClosed j h)
  assume "refused srv i"
  with OpenaiClosed show ?thesis
    by (simp add: step_def refused_with_socket case_prod_beta)
next
  case (OpenaiError j h)
  assume "refused srv i"
  with OpenaiError show ?thesis
    by (simp add: step_def refused_with_socket case_prod_beta)
next
  case (FetchSettled k out)
  assume "refused srv i"
  with FetchSettled show ?thesis
    by (simp add: step_def handleCallEnd_settled_eq refused_def)
next
  case (TextSettled k resolved)
  assume "refused srv i"
  with TextSettled show ?thesis
    by (simp add: step_def handleCallEnd_text_settled_eq refused_def)
next
  case (TimerFired k)
  assume "refused srv i"
  with TimerFired show ?thesis
    by (auto simp: step_def sessions_delete_def refused_def split: option.splits)
next
  case SweepTick
  assume "refused srv i"
  with SweepTick show ?thesis by (simp add: step_def sweep_def refused_def)
next
  case (Advance d)
  assume "refused srv i"
  with Advance show ?thesis by (simp add: step_def refused_def)
next
  case (SetClock t)
  assume "refused srv i"
  with SetClock show ?thesis by (simp add: step_def refused_def)
qed

lemma refused_never_starts: "refused srv i \<Longrightarrow> never_starts rv cfg i srv es"
proof (induction es arbitrary: srv)
  case Nil
  then show ?case by simp
next
  case (Cons e es)
  from Cons.prems have "conn_at srv i = None"
    by (simp add: refused_def conn_at_def)
  then have "\<not> start_succeeds rv i srv e"
    by (auto simp: start_succeeds_def
        split: event.splits frame.splits twilio_msg.splits option.splits)
  with Cons.IH [OF refused_step [OF Cons.prems]] show ?case by simp
qed

lemma refused_no_leg: "refused srv i \<Longrightarrow> ai_leg srv i = None"
  by (simp add: refused_def ai_leg_def conn_at_def)

lemma wss_on_connection_refuses:
  assumes "\<not> truthy q \<or> sessions_get srv q = None"
  shows "wss_on_connection StreamUrl q srv =
           (srv\<lparr>conns := conns srv @ [None]\<rparr>, [Console Error, TwilioClose (length (conns srv))])"
    and "refused (fst (wss_on_connection StreamUrl q srv)) (length (conns srv))"
  using assms by (auto simp: wss_on_connection_def refused_def Let_def)

lemma start_fails:
  assumes "conn_at srv i = Some c" and "\<not> resolves StreamParameter srv c p"
  shows "snd (step StreamParameter cfg srv (TwilioMessage i (Json (Start (Some p))))) =
           [Console Error, TwilioClose i]"
proof -
  from assms(1) have "i < length (conns srv)" "conns srv ! i = Some c"
    by (auto simp: conn_at_def split: if_splits)
  then show ?thesis
    by (simp add: step_def with_conn_def twilio_on_message_def twilio_start_failed [OF assms(2)])
qed

subsection \<open>Closures that have made an AI socket\<close>

lemma closures_ok_fields:
  "closures_ok rv (srv\<lparr>sessions := a\<rparr>) = closures_ok rv srv"
  "closures_ok rv (srv\<lparr>objs := b\<rparr>) = closures_ok rv srv"
  "closures_ok rv (srv\<lparr>nextRef := n\<rparr>) = closures_ok rv srv"
  "closures_ok rv (srv\<lparr>awaiting := aw\<rparr>) = closures_ok rv srv"
  "closures_ok rv (srv\<lparr>timers := ts\<rparr>) = closures_ok rv srv"
  "closures_ok rv (srv\<lparr>clock := t\<rparr>) = closures_ok rv srv"
  "closures_ok rv (srv\<lparr>uptime := u\<rparr>) = closures_ok rv srv"
  by (simp_all add: closures_ok_def)

lemma closures_ok_same: "conns srv1 = conns srv \<Longrightarrow> closures_ok rv srv1 = closures_ok rv srv"
  by (simp add: closures_ok_def)

lemma closures_ok_at:
  "closures_ok rv srv \<Longrightarrow> conn_at srv i = Some c \<Longrightarrow> closure_ok rv c"
  by (auto simp: closures_ok_def conn_at_def list_all_length split: if_splits)

lemma with_conn_ok:
  assumes same: "\<And>c. conns (fst (snd (f c))) = conns srv"
    and keep: "\<And>c. closure_ok rv c \<Longrightarrow> closure_ok rv (fst (f c))"
    and ok: "closures_ok rv srv"
  shows "closures_ok rv (fst (with_conn j srv f))"
proof (cases "j < length (conns srv)")
  case False
  with ok show ?thesis by (simp add: with_conn_def)
next
  case True
  show ?thesis
  proof (cases "conns srv ! j")
    case None
    with True ok show ?thesis by (simp add: with_conn_def)
  next
    case (Some c)
    obtain c1 srv1 effs where f: "f c = (c1, srv1, effs)"
      by (cases "f c") auto
    from same [of c] f have s: "conns srv1 = conns srv" by simp
    from ok True Some have "closure_ok rv c"
      by (auto simp: closures_ok_def list_all_length)
    from keep [OF this] f have "closure_ok rv c1" by simp
    with ok True have "closures_ok rv (srv1\<lparr>conns := (conns srv)[j := Some c1]\<rparr>)"
      by (auto simp: closures_ok_def list_all_length nth_list_update)
    with True Some f s show ?thesis by (simp add: with_conn_def)
  qed
qed

lemma with_socket_ok:
  assumes "\<And>c. conns (fst (snd (f c))) = conns srv"
    and "\<And>c. closure_ok rv c \<Longrightarrow> closure_ok rv (fst (f c))"
    and "closures_ok rv srv"
  shows "closures_ok rv (fst (with_socket j h srv f))"
  unfolding with_socket_def
  by (rule with_conn_ok) (use assms in auto)

lemma closure_ok_twilio_start:
  "closure_ok rv c \<Longrightarrow> closure_ok rv (fst (twilio_start rv i p c srv))"
  by (cases rv)
    (auto simp: closure_ok_def twilio_start_def connectOpenAI_def Let_def case_prod_beta
      split: option.splits if_splits)

lemma closure_ok_twilio_on_message:
  "closure_ok rv c \<Longrightarrow> closure_ok rv (fst (twilio_on_message rv cfg i fr c srv))"
  by (auto simp: twilio_on_message_def case_prod_beta closure_ok_twilio_start
      split: frame.splits twilio_msg.splits option.splits)

lemma closure_ok_twilio_on_close:
  "closure_ok rv c \<Longrightarrow> closure_ok rv (fst (twilio_on_close rv cfg i c srv))"
  by (auto simp: twilio_on_close_def Let_def case_prod_beta closure_ok_def split: option.splits)

lemma closure_ok_openai:
  "closure_ok rv c \<Longrightarrow> closure_ok rv (fst (openai_on_open i h c srv))"
  "closure_ok rv c \<Longrightarrow> closure_ok rv (fst (openai_on_close rv h c))"
  "closure_ok rv c \<Longrightarrow> closure_ok rv (fst (openai_on_error c))"
  by (auto simp: openai_on_open_def openai_on_close_def openai_on_error_def closure_ok_def
      Let_def split: option.splits)

lemma closures_ok_step: "closures_ok rv srv \<Longrightarrow> closures_ok rv (fst (step rv cfg srv e))"
proof (cases e)
  case (PostSession uuid b)
  assume "closures_ok rv srv"
  with PostSession show ?thesis
    by (simp add: step_def post_session_def closures_ok_def)
next
  case (WsConnection q)
  assume "closures_ok rv srv"
  with WsConnection show ?thesis
    by (cases rv)
      (auto simp: step_def wss_on_connection_def closures_ok_def closure_ok_def
        new_connection_def Let_def truthy_def sessions_get_def split: option.splits)
next
  case (TwilioMessage i fr)
  assume "closures_ok rv srv"
  with TwilioMessage show ?thesis
    by (simp add: step_def with_conn_ok conns_twilio_on_message closure_ok_twilio_on_message)
next
  case (TwilioClosed i)
  assume "closures_ok rv srv"
  with TwilioClosed show ?thesis
    by (simp add: step_def with_conn_ok conns_twilio_on_close closure_ok_twilio_on_close)
next
  case (TwilioError i)
  assume "closures_ok rv srv"
  with TwilioError show ?thesis
    by (simp add: step_def)
next
  case (OpenaiOpen i h)
  assume "closures_ok rv srv"
  with OpenaiOpen show ?thesis
    by (simp add: step_def with_socket_ok case_prod_beta closure_ok_openai)
next
  case (OpenaiMessage i h fr)
  assume "closures_ok rv srv"
  with OpenaiMessage show ?thesis
    by (simp add: step_def with_socket_ok case_prod_beta conns_openai_on_message)
next
  case (OpenaiClosed i h)
  assume "closures_ok rv srv"
  with OpenaiClosed show ?thesis
    by (simp add: step_def with_socket_ok case_prod_beta closure_ok_openai)
next
  case (OpenaiError i h)
  assume "closures_ok rv srv"
  with OpenaiError show ?thesis
    by (simp add: step_def with_socket_ok case_prod_beta closure_ok_openai)
next
  case (FetchSettled k out)
  assume "closures_ok rv srv"
  with FetchSettled show ?thesis
    by (auto simp: step_def handleCallEnd_settled_eq closures_ok_fields)
next
  case (TextSettled k resolved)
  assume "closures_ok rv srv"
  with TextSettled show ?thesis
    by (simp add: step_def handleCallEnd_text_settled_eq closures_ok_fields)
next
  case (TimerFired k)
  assume "closures_ok rv srv"
  with TimerFired show ?thesis
    by (auto simp: step_def sessions_delete_def closures_ok_fields split: option.splits)
next
  case SweepTick
  assume "closures_ok rv srv"
  with SweepTick show ?thesis
    by (simp add: step_def sweep_def closures_ok_fields)
next
  case (Advance d)
  assume "closures_ok rv srv"
  with Advance show ?thesis by (simp add: step_def closures_ok_def)
next
  case (SetClock t)
  assume "closures_ok rv srv"
  with SetClock show ?thesis by (simp add: step_def closures_ok_fields)
qed

lemma closures_ok_init: "closures_ok rv init"
  by (simp add: closures_ok_def init_def)

lemma closures_ok_run: "closures_ok rv srv \<Longrightarrow> closures_ok rv (fst (run rv cfg srv es))"
  by (rule run_invariant) (simp_all add: closures_ok_step)

lemma closure_ok_socket:
  "closure_ok rv c \<Longrightarrow> h < socketCount c \<Longrightarrow>
     \<exists>r w. session c = Some r \<and> openaiWs c = Some w \<and> w < socketCount c"
  by (auto simp: closure_ok_def split: option.splits)

section \<open>Properties of the server\<close>

subsection \<open>C5: caller audio is forwarded only to a ready, open AI leg\<close>

text \<open>
  C5. A \<open>media\<close> event that carries a frame is forwarded to the AI leg, as one
  \<open>input_audio_buffer.append\<close> message on the current AI socket, if and only if
  \<open>openaiReady\<close> holds and that socket is open. In both cases the closure and the
  process state are left as they were, so the handler keeps no copy of a frame it does
  not forward; and a frame that arrives while the leg is not ready and open leaves no
  trace at all: the run of any later events gives the same state and the same effects
  as if the frame had never arrived.
\<close>

theorem media_forwarded_iff_ready:
  "twilio_on_message rv cfg i (Json (Media (Some m))) c srv =
     (c, srv,
      if openaiReady c \<and> openaiWs_open c
      then [OpenaiSend i (the (openaiWs c)) (InputAudioBufferAppend (payload m))]
      else [])
   \<and> (conn_at srv i = Some c \<and> \<not> (openaiReady c \<and> openaiWs_open c) \<longrightarrow>
        run rv cfg srv (TwilioMessage i (Json (Media (Some m))) # es) = run rv cfg srv es)"
proof (intro conjI impI)
  show a: "twilio_on_message rv cfg i (Json (Media (Some m))) c srv =
     (c, srv,
      if openaiReady c \<and> openaiWs_open c
      then [OpenaiSend i (the (openaiWs c)) (InputAudioBufferAppend (payload m))]
      else [])"
    by (simp add: twilio_on_message_def twilio_media_def openaiWs_send_open)
  assume h: "conn_at srv i = Some c \<and> \<not> (openaiReady c \<and> openaiWs_open c)"
  then have "twilio_on_message rv cfg i (Json (Media (Some m))) c srv = (c, srv, [])"
    using a by simp
  then have "step rv cfg srv (TwilioMessage i (Json (Media (Some m)))) = (srv, [])"
    using h by (simp add: step_def with_conn_const)
  then show "run rv cfg srv (TwilioMessage i (Json (Media (Some m))) # es) = run rv cfg srv es"
    by simp
qed

text \<open>
  The frame \<open>AAAA\<close> is dropped while the AI socket is connecting, and forwarded by the
  same handler once the socket is open.
\<close>

theorem media_forwarded_iff_ready_witness:
  "conn_at example_server 0 = Some example_conn
   \<and> \<not> (openaiReady example_conn \<and> openaiWs_open example_conn)
   \<and> run StreamUrl example_config example_server
        [TwilioMessage 0 (Json (Media (Some \<lparr>payload = Some ''AAAA''\<rparr>))), OpenaiOpen 0 0] =
      run StreamUrl example_config example_server [OpenaiOpen 0 0]
   \<and> twilio_on_message StreamUrl example_config 0
        (Json (Media (Some \<lparr>payload = Some ''AAAA''\<rparr>))) ready_conn ready_server =
        (ready_conn, ready_server, [OpenaiSend 0 0 (InputAudioBufferAppend (Some ''AAAA''))])"
  using media_forwarded_iff_ready [of StreamUrl example_config 0 "\<lparr>payload = Some ''AAAA''\<rparr>"
      example_conn example_server "[OpenaiOpen 0 0]"]
    media_forwarded_iff_ready [of StreamUrl example_config 0 "\<lparr>payload = Some ''AAAA''\<rparr>"
      ready_conn ready_server "[]"]
  by (simp add: conn_at_def example_server_def example_conn_def ready_conn_def openaiWs_open_def)

subsection \<open>C6: barge-in\<close>

text \<open>
  C6. On an \<open>input_audio_buffer.speech_started\<close> event the handler sends exactly one
  \<open>clear\<close> command to the telephony socket of the call, with the stream identifier
  the closure holds, and changes nothing else. In a run, that command stands before
  every effect of every later event, hence before any caller audio relayed after it.
\<close>

theorem speech_started_clears:
  "handleOpenAIEvent rv i SpeechStarted c srv =
     (srv, [TwilioSend i (Clear (streamSid c))], Normal)
   \<and> (conn_at srv i = Some c \<and> h < socketCount c \<longrightarrow>
        run rv cfg srv (OpenaiMessage i h (Json SpeechStarted) # es) =
          (fst (run rv cfg srv es),
           TwilioSend i (Clear (streamSid c)) # snd (run rv cfg srv es)))"
proof (intro conjI impI)
  show a: "handleOpenAIEvent rv i SpeechStarted c srv =
             (srv, [TwilioSend i (Clear (streamSid c))], Normal)"
    by (simp add: handleOpenAIEvent_def)
  assume h: "conn_at srv i = Some c \<and> h < socketCount c"
  have "step rv cfg srv (OpenaiMessage i h (Json SpeechStarted)) =
          (srv, [TwilioSend i (Clear (streamSid c))])"
    using h a by (simp add: step_def with_socket_def with_conn_const openai_on_message_def)
  then show "run rv cfg srv (OpenaiMessage i h (Json SpeechStarted) # es) =
          (fst (run rv cfg srv es), TwilioSend i (Clear (streamSid c)) # snd (run rv cfg srv es))"
    by (simp split: prod.splits)
qed

text \<open>
  Speech starts on the ready call and a caller frame follows: the clear command for
  stream \<open>MZ1\<close> comes first, the relayed frame after it.
\<close>

theorem speech_started_clears_witness:
  "conn_at ready_server 0 = Some ready_conn \<and> 0 < socketCount ready_conn
   \<and> run StreamUrl example_config ready_server
        [OpenaiMessage 0 0 (Json SpeechStarted),
         TwilioMessage 0 (Json (Media (Some \<lparr>payload = Some ''AAAA''\<rparr>)))] =
      (ready_server,
       [TwilioSend 0 (Clear (Some ''MZ1'')),
        OpenaiSend 0 0 (InputAudioBufferAppend (Some ''AAAA''))])"
proof -
  have r: "run StreamUrl example_config ready_server
        [TwilioMessage 0 (Json (Media (Some \<lparr>payload = Some ''AAAA''\<rparr>)))] =
      (ready_server, [OpenaiSend 0 0 (InputAudioBufferAppend (Some ''AAAA''))])"
    by (simp add: handler_defs example_defs)
  have c: "conn_at ready_server 0 = Some ready_conn \<and> 0 < socketCount ready_conn"
    by (simp add: conn_at_def example_defs)
  have s: "streamSid ready_conn = Some ''MZ1''"
    by (simp add: example_defs)
  from speech_started_clears [of StreamUrl 0 ready_conn ready_server 0 example_config
      "[TwilioMessage 0 (Json (Media (Some \<lparr>payload = Some ''AAAA''\<rparr>)))]"] c
  have "run StreamUrl example_config ready_server
        [OpenaiMessage 0 0 (Json SpeechStarted),
         TwilioMessage 0 (Json (Media (Some \<lparr>payload = Some ''AAAA''\<rparr>)))] =
      (fst (run StreamUrl example_config ready_server
             [TwilioMessage 0 (Json (Media (Some \<lparr>payload = Some ''AAAA''\<rparr>)))]),
       TwilioSend 0 (Clear (streamSid ready_conn)) #
       snd (run StreamUrl example_config ready_server
             [TwilioMessage 0 (Json (Media (Some \<lparr>payload = Some ''AAAA''\<rparr>)))]))"
    by blast
  then have "run StreamUrl example_config ready_server
        [OpenaiMessage 0 0 (Json SpeechStarted),
         TwilioMessage 0 (Json (Media (Some \<lparr>payload = Some ''AAAA''\<rparr>)))] =
      (ready_server,
       [TwilioSend 0 (Clear (Some ''MZ1'')),
        OpenaiSend 0 0 (InputAudioBufferAppend (Some ''AAAA''))])"
    by (simp only: r s fst_conv snd_conv)
  with c show ?thesis by blast
qed

subsection \<open>C10: a clear command without a stream identifier\<close>

text \<open>
  C10. While the closure holds no stream identifier, a speech-started event still sends
  a \<open>clear\<close> command, which then carries no stream identifier, whereas an
  audio-output delta sends nothing. A delta is forwarded exactly when both the stream
  identifier and the delta are non-empty.
\<close>

theorem clear_without_stream_id:
  "(streamSid c = None \<longrightarrow>
      handleOpenAIEvent rv i SpeechStarted c srv = (srv, [TwilioSend i (Clear None)], Normal) \<and>
      handleOpenAIEvent rv i (AudioDelta d) c srv = (srv, [], Normal))
   \<and> handleOpenAIEvent rv i (AudioDelta d) c srv =
       (srv,
        if truthy (streamSid c) \<and> truthy d
        then [TwilioSend i (MediaFrame (the (streamSid c)) (the d))] else [],
        Normal)"
  by (simp add: handleOpenAIEvent_def truthy_def)

text \<open>
  A \<open>start\<close> event with no \<open>streamSid\<close> opens the AI leg all the same; the events of that
  leg then find the closure without a stream identifier.
\<close>

theorem clear_without_stream_id_witness:
  "streamSid (ready_conn\<lparr>streamSid := None\<rparr>) = None
   \<and> handleOpenAIEvent StreamUrl 0 SpeechStarted (ready_conn\<lparr>streamSid := None\<rparr>) ready_server =
       (ready_server, [TwilioSend 0 (Clear None)], Normal)
   \<and> handleOpenAIEvent StreamUrl 0 (AudioDelta (Some ''BBBB'')) (ready_conn\<lparr>streamSid := None\<rparr>)
        ready_server = (ready_server, [], Normal)
   \<and> handleOpenAIEvent StreamUrl 0 (AudioDelta (Some ''BBBB'')) ready_conn ready_server =
       (ready_server, [TwilioSend 0 (MediaFrame ''MZ1'' ''BBBB'')], Normal)
   \<and> snd (run StreamUrl example_config init
        [PostSession ''s-1'' example_body, WsConnection (Some ''s-1''),
         TwilioMessage 0 (Json (Start (Some (example_start\<lparr>start_streamSid := None\<rparr>)))),
         OpenaiOpen 0 0, OpenaiMessage 0 0 (Json (AudioDelta (Some ''BBBB''))),
         OpenaiMessage 0 0 (Json SpeechStarted)]) =
       [Console Info, ResJson ''s-1'', Console Info, NewWebSocket 0 0, Console Info,
        OpenaiSend 0 0 (SessionUpdate ''Be concise''), TwilioSend 0 (Clear None)]"
  using clear_without_stream_id [of "ready_conn\<lparr>streamSid := None\<rparr>" StreamUrl 0 ready_server
      "Some ''BBBB''"]
    clear_without_stream_id [of ready_conn StreamUrl 0 ready_server "Some ''BBBB''"]
  by (simp add: handler_defs example_defs)

subsection \<open>C1: finalize takes effect at most once\<close>

text \<open>
  C1. A call of \<open>handleCallEnd\<close> on an identifier that is not registered, or whose
  session has ended, changes nothing and has no effect; so does the second of two
  calls in a row, whatever \<open>callSid\<close> each is given. Along every run of events of the
  process, from any state and in either revision (\<open>stop\<close> events, closed connections,
  and anything else, in any order), a session object that exists at the start goes from
  not ended to ended at most once, and the steps at which it does so issue at most one
  report. No other step issues a report: a step issues at most one, and when it issues
  one, it takes a session from not ended to ended.
\<close>

theorem finalize_at_most_once:
  "(sessions_get srv sid = None \<or> (\<exists>r. sessions_get srv sid = Some r \<and> ended (objs srv r)) \<longrightarrow>
      handleCallEnd cfg sid csid srv = (srv, []))
   \<and> handleCallEnd cfg sid csid' (fst (handleCallEnd cfg sid csid srv)) =
       (fst (handleCallEnd cfg sid csid srv), [])
   \<and> (r < nextRef srv \<longrightarrow> transitions rv cfg r srv es \<le> 1 \<and> reports rv cfg r srv es \<le> 1)
   \<and> fetches (snd (step rv cfg srv e)) \<le> 1
   \<and> (registry_ok srv \<and> 0 < fetches (snd (step rv cfg srv e)) \<longrightarrow>
        (\<exists>r'. r' < nextRef srv \<and> \<not> ended (objs srv r') \<and>
              ended (objs (fst (step rv cfg srv e)) r')))"
  using handleCallEnd_noop [of srv sid cfg csid] handleCallEnd_twice [of cfg sid csid' csid srv]
    at_most_once [of r srv rv cfg es] step_fetches(1) [of rv cfg srv e]
    step_fetch_allocated [of srv rv cfg e]
  by blast

text \<open>
  The example call receives its \<open>stop\<close> event and then closes: the session ends once,
  one report is issued, and the second call of \<open>handleCallEnd\<close> adds nothing.
\<close>

theorem finalize_at_most_once_witness:
  "0 < nextRef example_server \<and> registry_ok example_server
   \<and> transitions StreamUrl example_config 0 example_server
       [TwilioMessage 0 (Json Stop), TwilioClosed 0] = 1
   \<and> reports StreamUrl example_config 0 example_server
       [TwilioMessage 0 (Json Stop), TwilioClosed 0] = 1
   \<and> snd (run StreamUrl example_config example_server
       [TwilioMessage 0 (Json Stop), TwilioClosed 0]) =
       [Console Info,
        Fetch \<lparr>report_type = ''openai-realtime-end'', report_callId = Some ''c-1'',
               report_callSid = Some ''CA1'', report_transcript = [], report_duration = 0,
               report_endedReason = ''call_ended''\<rparr>]
   \<and> sessions_get example_server (Some ''s-9'') = None
   \<and> handleCallEnd example_config (Some ''s-9'') None example_server = (example_server, [])
   \<and> 0 < fetches (snd (step StreamUrl example_config example_server (TwilioMessage 0 (Json Stop))))
   \<and> \<not> ended (objs example_server 0)
   \<and> ended (objs (fst (step StreamUrl example_config example_server
                         (TwilioMessage 0 (Json Stop)))) 0)"
proof -
  have a: "0 < nextRef example_server" and b: "registry_ok example_server"
    and c: "sessions_get example_server (Some ''s-9'') = None"
    by (simp_all add: example_defs registry_ok_def sessions_get_def)
  have s: "step StreamUrl example_config example_server (TwilioMessage 0 (Json Stop)) =
      (example_server\<lparr>objs := (objs example_server)(0 := example_session\<lparr>ended := True\<rparr>),
                      awaiting := [(AtFetch, Some ''s-1'')]\<rparr>,
       [Console Info,
        Fetch \<lparr>report_type = ''openai-realtime-end'', report_callId = Some ''c-1'',
               report_callSid = Some ''CA1'', report_transcript = [], report_duration = 0,
               report_endedReason = ''call_ended''\<rparr>])"
    by (simp add: handler_defs example_defs)
  have s': "step StreamUrl example_config
      (example_server\<lparr>objs := (objs example_server)(0 := example_session\<lparr>ended := True\<rparr>),
                      awaiting := [(AtFetch, Some ''s-1'')]\<rparr>) (TwilioClosed 0) =
      (example_server\<lparr>objs := (objs example_server)(0 := example_session\<lparr>ended := True\<rparr>),
                      awaiting := [(AtFetch, Some ''s-1'')]\<rparr>, [])"
    by (simp add: handler_defs example_defs)
  have e0: "\<not> ended (objs example_server 0)"
    by (simp add: example_defs)
  from finalize_at_most_once [of example_server "Some ''s-9''" example_config None None 0
      StreamUrl "[TwilioMessage 0 (Json Stop), TwilioClosed 0]" "TwilioMessage 0 (Json Stop)"] c
  have d: "handleCallEnd example_config (Some ''s-9'') None example_server = (example_server, [])"
    by blast
  show ?thesis
    using a b c d e0 by (simp add: s s')
qed

subsection \<open>C3: which session a start event resolves to\<close>

text \<open>
  C3, evaluated on the second revision. Two sessions are registered, \<open>s-1\<close> (prompt
  \<open>Be concise\<close>) and \<open>s-2\<close> (prompt \<open>Be verbose\<close>). A socket connects with \<open>s-1\<close> in its
  URL and its \<open>start\<close> event carries the custom parameter \<open>s-2\<close>. The closure keeps
  \<open>s-1\<close> and its session object, and the AI leg is configured with the prompt of
  \<open>s-1\<close>: the session of the URL is used although a custom parameter is present.
\<close>

theorem url_session_kept_despite_custom_parameter:
  "map_option (\<lambda>c. (sessionId c, session c))
     (conn_at (fst (run StreamParameter example_config init
        [PostSession ''s-1'' example_body, PostSession ''s-2'' other_body,
         WsConnection (Some ''s-1''),
         TwilioMessage 0 (Json (Start (Some (example_start\<lparr>customParameters := Some (Some ''s-2'')\<rparr>)))),
         OpenaiOpen 0 0])) 0) = Some (Some ''s-1'', Some 0)
   \<and> snd (run StreamParameter example_config init
        [PostSession ''s-1'' example_body, PostSession ''s-2'' other_body,
         WsConnection (Some ''s-1''),
         TwilioMessage 0 (Json (Start (Some (example_start\<lparr>customParameters := Some (Some ''s-2'')\<rparr>)))),
         OpenaiOpen 0 0]) =
       [Console Info, ResJson ''s-1'', Console Info, ResJson ''s-2'', Console Info,
        Console Info, NewWebSocket 0 0, Console Info,
        OpenaiSend 0 0 (SessionUpdate ''Be concise'')]"
  by (simp add: handler_defs example_defs)

subsection \<open>C2: readiness of the AI leg\<close>

text \<open>
  C2, as the code has it. The readiness flag is set by the \<open>open\<close> handler of an AI
  socket: when the connection is established, the handler sends the
  \<open>session.update\<close> message with the prompt of the session on the current AI socket of
  the call and then sets \<open>openaiReady\<close>. A \<open>session.created\<close> event never changes the
  state, the readiness flag included; it makes exactly one call of \<open>send\<close>, with a
  \<open>response.create\<close> message, on the current AI socket (after one log line in the
  second revision). This holds
  for every socket of every call, with one exception, which needs a second \<open>start\<close>
  event on the same call: while the current socket is a newer one that is still
  connecting, the send throws, so the \<open>open\<close> handler of the older socket sets no
  readiness and ends in an uncaught exception, and an acknowledgment sends nothing
  and logs an error. In every state the process reaches from its start, a closure that
  has made a socket has a session and a current socket, so the remaining case of the
  \<open>open\<close> handler, in which it throws for want of one of them, does not arise.
\<close>

theorem ready_on_open_first_turn_on_created:
  "(conn_at srv i = Some c \<and> h < socketCount c \<longrightarrow>
      step rv cfg srv (OpenaiOpen i h) =
        (case (session c, openaiWs c) of
           (Some r, Some w) \<Rightarrow>
             if w \<noteq> h \<and> readyState c w = CONNECTING
             then (srv\<lparr>conns := (conns srv)[i := Some (c\<lparr>readyState := (readyState c)(h := OPEN)\<rparr>)]\<rparr>,
                   [Console Info, UncaughtException])
             else (srv\<lparr>conns := (conns srv)[i := Some (c\<lparr>readyState := (readyState c)(h := OPEN),
                                                         openaiReady := True\<rparr>)]\<rparr>,
                   [Console Info, OpenaiSend i w (SessionUpdate (prompt (objs srv r)))])
         | _ \<Rightarrow>
             (srv\<lparr>conns := (conns srv)[i := Some (c\<lparr>readyState := (readyState c)(h := OPEN)\<rparr>)]\<rparr>,
              [Console Info, UncaughtException])))
   \<and> (conn_at srv i = Some c \<and> h < socketCount c \<longrightarrow>
      step rv cfg srv (OpenaiMessage i h (Json SessionCreated)) =
        (srv, (if rv = StreamParameter then [Console Info] else []) @
              (case openaiWs c of
                 Some w \<Rightarrow>
                   if readyState c w = CONNECTING then [Console Error]
                   else [OpenaiSend i w ResponseCreate]
               | None \<Rightarrow> [Console Error])))
   \<and> (closures_ok rv srv \<and> conn_at srv i = Some c \<and> h < socketCount c \<longrightarrow>
      session c \<noteq> None \<and> openaiWs c \<noteq> None)
   \<and> closures_ok rv (fst (run rv cfg init es))"
proof (intro conjI impI)
  assume a: "conn_at srv i = Some c \<and> h < socketCount c"
  then have i: "i < length (conns srv)" "conns srv ! i = Some c"
    by (auto simp: conn_at_def split: if_splits)
  with a show "step rv cfg srv (OpenaiOpen i h) =
        (case (session c, openaiWs c) of
           (Some r, Some w) \<Rightarrow>
             if w \<noteq> h \<and> readyState c w = CONNECTING
             then (srv\<lparr>conns := (conns srv)[i := Some (c\<lparr>readyState := (readyState c)(h := OPEN)\<rparr>)]\<rparr>,
                   [Console Info, UncaughtException])
             else (srv\<lparr>conns := (conns srv)[i := Some (c\<lparr>readyState := (readyState c)(h := OPEN),
                                                         openaiReady := True\<rparr>)]\<rparr>,
                   [Console Info, OpenaiSend i w (SessionUpdate (prompt (objs srv r)))])
         | _ \<Rightarrow>
             (srv\<lparr>conns := (conns srv)[i := Some (c\<lparr>readyState := (readyState c)(h := OPEN)\<rparr>)]\<rparr>,
              [Console Info, UncaughtException]))"
    by (auto simp: step_def with_socket_def with_conn_def openai_on_open_def openaiWs_send_def
        split: option.splits)
next
  assume a: "conn_at srv i = Some c \<and> h < socketCount c"
  have "handleOpenAIEvent rv i SessionCreated c srv =
      (srv, (if rv = StreamParameter then [Console Info] else []) @
            (case openaiWs c of
               Some w \<Rightarrow> if readyState c w = CONNECTING then [] else [OpenaiSend i w ResponseCreate]
             | None \<Rightarrow> []),
       (case openaiWs c of
          Some w \<Rightarrow> if readyState c w = CONNECTING then Throw else Normal
        | None \<Rightarrow> Throw))"
    by (simp add: handleOpenAIEvent_def openaiWs_send_def split: option.splits)
  then have "openai_on_message rv i (Json SessionCreated) c srv =
      (srv, (if rv = StreamParameter then [Console Info] else []) @
            (case openaiWs c of
               Some w \<Rightarrow>
                 if readyState c w = CONNECTING then [Console Error]
                 else [OpenaiSend i w ResponseCreate]
             | None \<Rightarrow> [Console Error]))"
    by (simp add: openai_on_message_def split: option.splits)
  with a show "step rv cfg srv (OpenaiMessage i h (Json SessionCreated)) =
        (srv, (if rv = StreamParameter then [Console Info] else []) @
              (case openaiWs c of
                 Some w \<Rightarrow>
                   if readyState c w = CONNECTING then [Console Error]
                   else [OpenaiSend i w ResponseCreate]
               | None \<Rightarrow> [Console Error]))"
    by (simp add: step_def with_socket_def with_conn_const)
next
  assume a: "closures_ok rv srv \<and> conn_at srv i = Some c \<and> h < socketCount c"
  then have "closure_ok rv c"
    by (auto intro: closures_ok_at)
  with a show "session c \<noteq> None" and "openaiWs c \<noteq> None"
    using closure_ok_socket [of rv c h] by auto
next
  show "closures_ok rv (fst (run rv cfg init es))"
    by (simp add: closures_ok_run closures_ok_init)
qed

text \<open>
  The socket of the example call opens: the call becomes ready. The acknowledgment
  then arrives: one \<open>response.create\<close> is sent and the state stays the same. After a
  second \<open>start\<close> event the first socket opens while the second is connecting: the call
  does not become ready and the handler throws; an acknowledgment on the first socket
  then sends nothing.
\<close>

theorem ready_on_open_first_turn_on_created_witness:
  "conn_at example_server 0 = Some example_conn \<and> 0 < socketCount example_conn
   \<and> step StreamUrl example_config example_server (OpenaiOpen 0 0) =
       (ready_server, [Console Info, OpenaiSend 0 0 (SessionUpdate ''Be concise'')])
   \<and> conn_at ready_server 0 = Some ready_conn \<and> 0 < socketCount ready_conn
   \<and> step StreamUrl example_config ready_server (OpenaiMessage 0 0 (Json SessionCreated)) =
       (ready_server, [OpenaiSend 0 0 ResponseCreate])
   \<and> conn_at restarted_server 0 = Some restarted_conn \<and> 0 < socketCount restarted_conn
   \<and> step StreamUrl example_config restarted_server (OpenaiOpen 0 0) =
       (restarted_server\<lparr>conns :=
          [Some (restarted_conn\<lparr>readyState := (readyState restarted_conn)(0 := OPEN)\<rparr>)]\<rparr>,
        [Console Info, UncaughtException])
   \<and> step StreamUrl example_config restarted_server (OpenaiMessage 0 0 (Json SessionCreated)) =
       (restarted_server, [Console Error])
   \<and> closures_ok StreamUrl restarted_server
   \<and> session restarted_conn \<noteq> None \<and> openaiWs restarted_conn \<noteq> None"
  using ready_on_open_first_turn_on_created
      [of example_server 0 example_conn 0 StreamUrl example_config "[]"]
    ready_on_open_first_turn_on_created
      [of ready_server 0 ready_conn 0 StreamUrl example_config "[]"]
    ready_on_open_first_turn_on_created
      [of restarted_server 0 restarted_conn 0 StreamUrl example_config
        "[PostSession ''s-1'' example_body, WsConnection (Some ''s-1''),
          TwilioMessage 0 (Json (Start (Some example_start))),
          TwilioMessage 0 (Json (Start (Some example_start)))]"]
  by (simp add: conn_at_def example_defs handler_defs closures_ok_def closure_ok_def)

text \<open>
  The claim as stated fails: after the \<open>start\<close> event and the \<open>open\<close> event of the AI
  socket, with no \<open>session.created\<close> event received, the call is ready, and the next
  caller frame is forwarded to the AI leg.
\<close>

theorem ready_before_session_created:
  "map_option openaiReady (conn_at (fst (run StreamUrl example_config init
     [PostSession ''s-1'' example_body, WsConnection (Some ''s-1''),
      TwilioMessage 0 (Json (Start (Some example_start))), OpenaiOpen 0 0,
      TwilioMessage 0 (Json (Media (Some \<lparr>payload = Some ''AAAA''\<rparr>)))])) 0) = Some True
   \<and> snd (run StreamUrl example_config init
     [PostSession ''s-1'' example_body, WsConnection (Some ''s-1''),
      TwilioMessage 0 (Json (Start (Some example_start))), OpenaiOpen 0 0,
      TwilioMessage 0 (Json (Media (Some \<lparr>payload = Some ''AAAA''\<rparr>)))]) =
     [Console Info, ResJson ''s-1'', Console Info, NewWebSocket 0 0, Console Info,
      OpenaiSend 0 0 (SessionUpdate ''Be concise''),
      OpenaiSend 0 0 (InputAudioBufferAppend (Some ''AAAA''))]"
  by (simp add: handler_defs example_defs)

subsection \<open>C4: no AI leg without a successful start\<close>

text \<open>
  C4, as the code has it. In the first revision a connection whose URL names no
  registered session is closed by the connection handler, which registers no handler
  on it: whatever events follow, no AI socket is ever opened for it. In the second
  revision a \<open>start\<close> event that finds no session closes the telephony socket and opens
  nothing, but the handlers stay registered, and a later \<open>start\<close> event on the same
  socket that finds a session opens an AI socket all the same. In both revisions a
  step opens an AI socket for a connection exactly when its event is a \<open>start\<close> event
  of that connection that finds its session; so along any run in which a connection
  without an AI leg receives no such event, no AI socket is opened for it and it still
  has no AI leg at the end.
\<close>

theorem no_ai_leg_without_start:
  "(\<not> truthy q \<or> sessions_get srv q = None \<longrightarrow>
      wss_on_connection StreamUrl q srv =
        (srv\<lparr>conns := conns srv @ [None]\<rparr>, [Console Error, TwilioClose (length (conns srv))]) \<and>
      \<not> opens_ai (length (conns srv))
          (snd (run StreamUrl cfg (fst (wss_on_connection StreamUrl q srv)) es)))
   \<and> (conn_at srv i = Some c \<and> \<not> resolves StreamParameter srv c p \<longrightarrow>
      snd (step StreamParameter cfg srv (TwilioMessage i (Json (Start (Some p))))) =
        [Console Error, TwilioClose i])
   \<and> opens_ai i (snd (step rv cfg srv e)) = start_succeeds rv i srv e
   \<and> (never_starts rv cfg i srv es \<and> ai_leg srv i = None \<longrightarrow>
      \<not> opens_ai i (snd (run rv cfg srv es)) \<and> ai_leg (fst (run rv cfg srv es)) i = None)"
proof (intro conjI impI)
  assume q: "\<not> truthy q \<or> sessions_get srv q = None"
  then show "wss_on_connection StreamUrl q srv =
        (srv\<lparr>conns := conns srv @ [None]\<rparr>, [Console Error, TwilioClose (length (conns srv))])"
    by (rule wss_on_connection_refuses(1))
  let ?s = "fst (wss_on_connection StreamUrl q srv)"
  from q have r: "refused ?s (length (conns srv))"
    by (rule wss_on_connection_refuses(2))
  from never_starts_no_leg [OF refused_never_starts [OF r] refused_no_leg [OF r]]
  show "\<not> opens_ai (length (conns srv)) (snd (run StreamUrl cfg ?s es))"
    by blast
next
  assume "conn_at srv i = Some c \<and> \<not> resolves StreamParameter srv c p"
  then show "snd (step StreamParameter cfg srv (TwilioMessage i (Json (Start (Some p))))) =
        [Console Error, TwilioClose i]"
    by (simp add: start_fails)
next
  show "opens_ai i (snd (step rv cfg srv e)) = start_succeeds rv i srv e"
    by (rule step_opens_iff)
next
  assume a: "never_starts rv cfg i srv es \<and> ai_leg srv i = None"
  then show "\<not> opens_ai i (snd (run rv cfg srv es))"
    and "ai_leg (fst (run rv cfg srv es)) i = None"
    using never_starts_no_leg [of rv cfg i srv es] by blast+
qed

text \<open>
  A connection of the second revision with no session in its URL receives a \<open>start\<close>
  event whose custom parameter names no session: the telephony socket is closed, and
  the frames, the \<open>stop\<close> event and the close that follow open no AI socket. The
  same \<open>start\<close> event with the identifier of the session opens one. In the first
  revision a connection for an unknown identifier is refused.
\<close>

theorem no_ai_leg_without_start_witness:
  "sessions_get init (Some ''s-0'') = None
   \<and> wss_on_connection StreamUrl (Some ''s-0'') init =
       (init\<lparr>conns := [None]\<rparr>, [Console Error, TwilioClose 0])
   \<and> \<not> opens_ai 0 (snd (run StreamUrl example_config
         (fst (wss_on_connection StreamUrl (Some ''s-0'') init))
         [TwilioMessage 0 (Json (Start (Some example_start))), TwilioClosed 0]))
   \<and> conn_at (example_server\<lparr>conns := [Some (new_connection None None)]\<rparr>) 0 =
       Some (new_connection None None)
   \<and> \<not> resolves StreamParameter (example_server\<lparr>conns := [Some (new_connection None None)]\<rparr>)
         (new_connection None None) (example_start\<lparr>customParameters := Some (Some ''s-0'')\<rparr>)
   \<and> snd (step StreamParameter example_config
         (example_server\<lparr>conns := [Some (new_connection None None)]\<rparr>)
         (TwilioMessage 0 (Json (Start (Some (example_start\<lparr>customParameters := Some (Some ''s-0'')\<rparr>)))))) =
       [Console Error, TwilioClose 0]
   \<and> never_starts StreamParameter example_config 0
        (example_server\<lparr>conns := [Some (new_connection None None)]\<rparr>)
        [TwilioMessage 0 (Json (Start (Some (example_start\<lparr>customParameters := Some (Some ''s-0'')\<rparr>)))),
         TwilioMessage 0 (Json (Media (Some \<lparr>payload = Some ''AAAA''\<rparr>))),
         TwilioMessage 0 (Json Stop), TwilioClosed 0]
   \<and> ai_leg (example_server\<lparr>conns := [Some (new_connection None None)]\<rparr>) 0 = None
   \<and> \<not> opens_ai 0 (snd (run StreamParameter example_config
         (example_server\<lparr>conns := [Some (new_connection None None)]\<rparr>)
         [TwilioMessage 0 (Json (Start (Some (example_start\<lparr>customParameters := Some (Some ''s-0'')\<rparr>)))),
          TwilioMessage 0 (Json (Media (Some \<lparr>payload = Some ''AAAA''\<rparr>))),
          TwilioMessage 0 (Json Stop), TwilioClosed 0]))
   \<and> ai_leg (fst (run StreamParameter example_config
         (example_server\<lparr>conns := [Some (new_connection None None)]\<rparr>)
         [TwilioMessage 0 (Json (Start (Some (example_start\<lparr>customParameters := Some (Some ''s-0'')\<rparr>)))),
          TwilioMessage 0 (Json (Media (Some \<lparr>payload = Some ''AAAA''\<rparr>))),
          TwilioMessage 0 (Json Stop), TwilioClosed 0])) 0 = None
   \<and> start_succeeds StreamParameter 0 (example_server\<lparr>conns := [Some (new_connection None None)]\<rparr>)
        (TwilioMessage 0 (Json (Start (Some example_start))))
   \<and> opens_ai 0 (snd (step StreamParameter example_config
         (example_server\<lparr>conns := [Some (new_connection None None)]\<rparr>)
         (TwilioMessage 0 (Json (Start (Some example_start))))))"
proof -
  let ?S = "example_server\<lparr>conns := [Some (new_connection None None)]\<rparr>"
  let ?bad = "example_start\<lparr>customParameters := Some (Some ''s-0'')\<rparr>"
  let ?es = "[TwilioMessage 0 (Json (Start (Some ?bad))),
         TwilioMessage 0 (Json (Media (Some \<lparr>payload = Some ''AAAA''\<rparr>))),
         TwilioMessage 0 (Json Stop), TwilioClosed 0]"
  have a: "sessions_get init (Some ''s-0'') = None"
    by (simp add: sessions_get_def init_def)
  have i: "length (conns init) = 0" "init\<lparr>conns := conns init @ [None]\<rparr> = init\<lparr>conns := [None]\<rparr>"
    by (simp_all add: init_def)
  have c: "conn_at ?S 0 = Some (new_connection None None)"
    by (simp add: conn_at_def)
  have r: "\<not> resolves StreamParameter ?S (new_connection None None) ?bad"
    by (simp add: resolves_def new_connection_def example_defs)
  have l: "ai_leg ?S 0 = None"
    by (simp add: ai_leg_def conn_at_def new_connection_def)
  have n: "never_starts StreamParameter example_config 0 ?S ?es"
    by (simp add: start_succeeds_def resolves_def handler_defs example_defs)
  have g: "start_succeeds StreamParameter 0 ?S (TwilioMessage 0 (Json (Start (Some example_start))))"
    by (simp add: start_succeeds_def resolves_def conn_at_def new_connection_def example_defs)
  from no_ai_leg_without_start [where q = "Some ''s-0''" and srv = init and cfg = example_config
      and es = "[TwilioMessage 0 (Json (Start (Some example_start))), TwilioClosed 0]"]
    a
  have "wss_on_connection StreamUrl (Some ''s-0'') init =
       (init\<lparr>conns := conns init @ [None]\<rparr>, [Console Error, TwilioClose (length (conns init))])
     \<and> \<not> opens_ai (length (conns init)) (snd (run StreamUrl example_config
         (fst (wss_on_connection StreamUrl (Some ''s-0'') init))
         [TwilioMessage 0 (Json (Start (Some example_start))), TwilioClosed 0]))"
    by blast
  then have w1: "wss_on_connection StreamUrl (Some ''s-0'') init =
       (init\<lparr>conns := [None]\<rparr>, [Console Error, TwilioClose 0])"
    and w2: "\<not> opens_ai 0 (snd (run StreamUrl example_config
         (fst (wss_on_connection StreamUrl (Some ''s-0'') init))
         [TwilioMessage 0 (Json (Start (Some example_start))), TwilioClosed 0]))"
    unfolding i by blast+
  from no_ai_leg_without_start [where srv = ?S and rv = StreamParameter
      and cfg = example_config and es = ?es and i = 0 and c = "new_connection None None"
      and p = ?bad and e = "TwilioMessage 0 (Json (Start (Some example_start)))"]
    c r l n g
  have w3: "snd (step StreamParameter example_config ?S (TwilioMessage 0 (Json (Start (Some ?bad))))) =
       [Console Error, TwilioClose 0]"
    and w4: "\<not> opens_ai 0 (snd (run StreamParameter example_config ?S ?es))"
    and w5: "ai_leg (fst (run StreamParameter example_config ?S ?es)) 0 = None"
    and w6: "opens_ai 0 (snd (step StreamParameter example_config ?S
         (TwilioMessage 0 (Json (Start (Some example_start))))))"
    by blast+
  from a w1 w2 c r w3 n l w4 w5 g w6 show ?thesis
    by blast
qed

text \<open>
  The claim as stated fails in the second revision: session resolution fails for a
  connection, the connection is closed, and an AI socket is opened for it afterwards.
  The session \<open>s-1\<close> is registered and a socket connects with no session in its URL.
  Its first \<open>start\<close> event names the unknown session \<open>s-0\<close>: an error is logged and the
  telephony socket is closed. Its second \<open>start\<close> event names \<open>s-1\<close>: the AI socket is
  opened, and the connection has an AI leg.
\<close>

theorem ai_leg_opened_after_failed_resolution:
  "snd (run StreamParameter example_config init
     [PostSession ''s-1'' example_body, WsConnection None,
      TwilioMessage 0 (Json (Start (Some (example_start\<lparr>customParameters := Some (Some ''s-0'')\<rparr>)))),
      TwilioMessage 0 (Json (Start (Some example_start)))]) =
     [Console Info, ResJson ''s-1'', Console Info, Console Error, TwilioClose 0,
      Console Info, NewWebSocket 0 0]
   \<and> ai_leg (fst (run StreamParameter example_config init
     [PostSession ''s-1'' example_body, WsConnection None,
      TwilioMessage 0 (Json (Start (Some (example_start\<lparr>customParameters := Some (Some ''s-0'')\<rparr>)))),
      TwilioMessage 0 (Json (Start (Some example_start)))])) 0 = Some 0"
  by (simp add: handler_defs example_defs ai_leg_def conn_at_def)

subsection \<open>C7: the results report\<close>

text \<open>
  C7, as the code has it. The first call of \<open>handleCallEnd\<close> on a session (the session
  is registered and has not ended) issues the report if and only if \<open>SUPABASE_URL\<close> and
  \<open>SUPABASE_ANON_KEY\<close> are both set and the session has a \<open>callId\<close>. The body of the
  report has six fields: the message type \<open>openai-realtime-end\<close> and, besides it, the
  \<open>callId\<close> of the session, the \<open>callSid\<close> passed in, the rendered transcript, the
  duration and the end reason \<open>call_ended\<close>. Without a report the deletion is scheduled
  at once. When the request fails, one error line is logged, no second request is made,
  and the deletion is scheduled all the same: as soon as the request is rejected, in
  both revisions; as soon as a response that is not ok arrives, in the first revision;
  and, in the second revision, which reads the body of such a response first, as soon
  as that read has settled, whatever its outcome.
\<close>

theorem report_when_configured:
  assumes "sessions_get srv sid = Some r" and "\<not> ended (objs srv r)"
  shows
    "(truthy (SUPABASE_URL cfg) \<and> truthy (SUPABASE_ANON_KEY cfg) \<and> truthy (callId (objs srv r)) \<longrightarrow>
        snd (handleCallEnd cfg sid csid srv) =
          [Console Info,
           Fetch \<lparr>report_type = ''openai-realtime-end'',
                  report_callId = callId (objs srv r),
                  report_callSid = csid,
                  report_transcript = transcriptStr (transcript (objs srv r)),
                  report_duration = seconds_rounded (clock srv - createdAt (objs srv r)),
                  report_endedReason = ''call_ended''\<rparr>] \<and>
        awaiting (fst (handleCallEnd cfg sid csid srv)) = awaiting srv @ [(AtFetch, sid)])
     \<and> (\<not> (truthy (SUPABASE_URL cfg) \<and> truthy (SUPABASE_ANON_KEY cfg) \<and>
            truthy (callId (objs srv r))) \<longrightarrow>
        snd (handleCallEnd cfg sid csid srv) = [Console Info, SetTimeout sid grace_period])
     \<and> (k < length (awaiting srv') \<and> fst (awaiting srv' ! k) = AtFetch \<and>
        (out = Rejected \<or> rv = StreamUrl \<and> out = Responded False) \<longrightarrow>
        step rv cfg srv' (FetchSettled k out) =
          (srv'\<lparr>awaiting := remove_nth k (awaiting srv'),
                timers := timers srv' @ [(uptime srv' + grace_period, snd (awaiting srv' ! k))]\<rparr>,
           [Console Error, SetTimeout (snd (awaiting srv' ! k)) grace_period]))
     \<and> (k < length (awaiting srv') \<and> fst (awaiting srv' ! k) = AtFetch \<longrightarrow>
        step StreamParameter cfg srv' (FetchSettled k (Responded False)) =
          (srv'\<lparr>awaiting := remove_nth k (awaiting srv') @ [(AtText, snd (awaiting srv' ! k))]\<rparr>,
           []))
     \<and> (k < length (awaiting srv') \<and> fst (awaiting srv' ! k) = AtText \<longrightarrow>
        step rv cfg srv' (TextSettled k resolved) =
          (srv'\<lparr>awaiting := remove_nth k (awaiting srv'),
                timers := timers srv' @ [(uptime srv' + grace_period, snd (awaiting srv' ! k))]\<rparr>,
           [Console Error, SetTimeout (snd (awaiting srv' ! k)) grace_period]))"
proof (intro conjI impI)
  assume "truthy (SUPABASE_URL cfg) \<and> truthy (SUPABASE_ANON_KEY cfg) \<and> truthy (callId (objs srv r))"
  then show "snd (handleCallEnd cfg sid csid srv) =
          [Console Info,
           Fetch \<lparr>report_type = ''openai-realtime-end'',
                  report_callId = callId (objs srv r),
                  report_callSid = csid,
                  report_transcript = transcriptStr (transcript (objs srv r)),
                  report_duration = seconds_rounded (clock srv - createdAt (objs srv r)),
                  report_endedReason = ''call_ended''\<rparr>]"
    and "awaiting (fst (handleCallEnd cfg sid csid srv)) = awaiting srv @ [(AtFetch, sid)]"
    by (simp_all add: handleCallEnd_first [OF assms])
next
  assume "\<not> (truthy (SUPABASE_URL cfg) \<and> truthy (SUPABASE_ANON_KEY cfg) \<and>
            truthy (callId (objs srv r)))"
  then show "snd (handleCallEnd cfg sid csid srv) = [Console Info, SetTimeout sid grace_period]"
    by (simp add: handleCallEnd_first [OF assms])
next
  assume "k < length (awaiting srv') \<and> fst (awaiting srv' ! k) = AtFetch \<and>
        (out = Rejected \<or> rv = StreamUrl \<and> out = Responded False)"
  then show "step rv cfg srv' (FetchSettled k out) =
          (srv'\<lparr>awaiting := remove_nth k (awaiting srv'),
                timers := timers srv' @ [(uptime srv' + grace_period, snd (awaiting srv' ! k))]\<rparr>,
           [Console Error, SetTimeout (snd (awaiting srv' ! k)) grace_period])"
    by (auto simp: step_def handleCallEnd_settled_eq)
next
  assume "k < length (awaiting srv') \<and> fst (awaiting srv' ! k) = AtFetch"
  then show "step StreamParameter cfg srv' (FetchSettled k (Responded False)) =
          (srv'\<lparr>awaiting := remove_nth k (awaiting srv') @ [(AtText, snd (awaiting srv' ! k))]\<rparr>,
           [])"
    by (simp add: step_def handleCallEnd_settled_eq)
next
  assume "k < length (awaiting srv') \<and> fst (awaiting srv' ! k) = AtText"
  then show "step rv cfg srv' (TextSettled k resolved) =
          (srv'\<lparr>awaiting := remove_nth k (awaiting srv'),
                timers := timers srv' @ [(uptime srv' + grace_period, snd (awaiting srv' ! k))]\<rparr>,
           [Console Error, SetTimeout (snd (awaiting srv' ! k)) grace_period])"
    by (simp add: step_def handleCallEnd_text_settled_eq)
qed

text \<open>
  On the ready call the assistant says \<open>hi\<close>, the caller says \<open>yo\<close>, and the call stops
  after 1499 ms. With the collector configured the report is issued, with the two
  lines of the transcript; without it no report is issued and the timer is set. When
  the request is rejected the error is logged and the timer set. In the second
  revision, when the collector answers with a response that is not ok, nothing is
  logged until the read of its body has settled; then the error is logged and the
  timer set.
\<close>

theorem report_when_configured_witness:
  "sessions_get (fst (run StreamUrl example_config ready_server example_talk)) (Some ''s-1'') = Some 0
   \<and> \<not> ended (objs (fst (run StreamUrl example_config ready_server example_talk)) 0)
   \<and> truthy (SUPABASE_URL example_config) \<and> truthy (SUPABASE_ANON_KEY example_config)
   \<and> truthy (callId (objs (fst (run StreamUrl example_config ready_server example_talk)) 0))
   \<and> snd (handleCallEnd example_config (Some ''s-1'') (Some ''CA1'')
         (fst (run StreamUrl example_config ready_server example_talk))) =
       [Console Info,
        Fetch \<lparr>report_type = ''openai-realtime-end'', report_callId = Some ''c-1'',
               report_callSid = Some ''CA1'',
               report_transcript =
                 [CHR 0xD7, CHR 0xA1, CHR 0xD7, CHR 0x95, CHR 0xD7, CHR 0x9B, CHR 0xD7, CHR 0x9F,
                  CHR '':'', CHR '' '', CHR ''h'', CHR ''i'', CHR 0x0A,
                  CHR 0xD7, CHR 0x9C, CHR 0xD7, CHR 0xA7, CHR 0xD7, CHR 0x95, CHR 0xD7, CHR 0x97,
                  CHR '':'', CHR '' '', CHR ''y'', CHR ''o''],
               report_duration = 1, report_endedReason = ''call_ended''\<rparr>]
   \<and> \<not> (truthy (SUPABASE_URL no_collector) \<and> truthy (SUPABASE_ANON_KEY no_collector) \<and>
          truthy (callId (objs (fst (run StreamUrl example_config ready_server example_talk)) 0)))
   \<and> snd (handleCallEnd no_collector (Some ''s-1'') (Some ''CA1'')
         (fst (run StreamUrl example_config ready_server example_talk))) =
       [Console Info, SetTimeout (Some ''s-1'') 300000]
   \<and> snd (run StreamUrl example_config (fst (run StreamUrl example_config ready_server example_talk))
        [TwilioMessage 0 (Json Stop), FetchSettled 0 Rejected]) =
       [Console Info,
        Fetch \<lparr>report_type = ''openai-realtime-end'', report_callId = Some ''c-1'',
               report_callSid = Some ''CA1'',
               report_transcript =
                 [CHR 0xD7, CHR 0xA1, CHR 0xD7, CHR 0x95, CHR 0xD7, CHR 0x9B, CHR 0xD7, CHR 0x9F,
                  CHR '':'', CHR '' '', CHR ''h'', CHR ''i'', CHR 0x0A,
                  CHR 0xD7, CHR 0x9C, CHR 0xD7, CHR 0xA7, CHR 0xD7, CHR 0x95, CHR 0xD7, CHR 0x97,
                  CHR '':'', CHR '' '', CHR ''y'', CHR ''o''],
               report_duration = 1, report_endedReason = ''call_ended''\<rparr>,
        Console Error, SetTimeout (Some ''s-1'') 300000]
   \<and> snd (run StreamParameter example_config
        (fst (run StreamUrl example_config ready_server example_talk))
        [TwilioMessage 0 (Json Stop), FetchSettled 0 (Responded False)]) =
       [Console Info, Console Info,
        Fetch \<lparr>report_type = ''openai-realtime-end'', report_callId = Some ''c-1'',
               report_callSid = Some ''CA1'',
               report_transcript =
                 [CHR 0xD7, CHR 0xA1, CHR 0xD7, CHR 0x95, CHR 0xD7, CHR 0x9B, CHR 0xD7, CHR 0x9F,
                  CHR '':'', CHR '' '', CHR ''h'', CHR ''i'', CHR 0x0A,
                  CHR 0xD7, CHR 0x9C, CHR 0xD7, CHR 0xA7, CHR 0xD7, CHR 0x95, CHR 0xD7, CHR 0x97,
                  CHR '':'', CHR '' '', CHR ''y'', CHR ''o''],
               report_duration = 1, report_endedReason = ''call_ended''\<rparr>]
   \<and> snd (run StreamParameter example_config
        (fst (run StreamUrl example_config ready_server example_talk))
        [TwilioMessage 0 (Json Stop), FetchSettled 0 (Responded False), TextSettled 0 True]) =
       [Console Info, Console Info,
        Fetch \<lparr>report_type = ''openai-realtime-end'', report_callId = Some ''c-1'',
               report_callSid = Some ''CA1'',
               report_transcript =
                 [CHR 0xD7, CHR 0xA1, CHR 0xD7, CHR 0x95, CHR 0xD7, CHR 0x9B, CHR 0xD7, CHR 0x9F,
                  CHR '':'', CHR '' '', CHR ''h'', CHR ''i'', CHR 0x0A,
                  CHR 0xD7, CHR 0x9C, CHR 0xD7, CHR 0xA7, CHR 0xD7, CHR 0x95, CHR 0xD7, CHR 0x97,
                  CHR '':'', CHR '' '', CHR ''y'', CHR ''o''],
               report_duration = 1, report_endedReason = ''call_ended''\<rparr>,
        Console Error, SetTimeout (Some ''s-1'') 300000]"
proof -
  let ?S = "fst (run StreamUrl example_config ready_server example_talk)"
  have S: "?S = ready_server\<lparr>
      objs := (objs ready_server)(0 := (objs ready_server 0)\<lparr>transcript :=
        [\<lparr>role = Agent, etext = ''hi'', timestamp = 0\<rparr>,
         \<lparr>role = User, etext = ''yo'', timestamp = 0\<rparr>]\<rparr>),
      clock := 1499, uptime := 1499\<rparr>"
    by (simp add: handler_defs example_defs example_talk_def)
  show ?thesis
    unfolding S
    using report_when_configured [where srv = "ready_server\<lparr>
          objs := (objs ready_server)(0 := (objs ready_server 0)\<lparr>transcript :=
            [\<lparr>role = Agent, etext = ''hi'', timestamp = 0\<rparr>,
             \<lparr>role = User, etext = ''yo'', timestamp = 0\<rparr>]\<rparr>),
          clock := 1499, uptime := 1499\<rparr>"
        and sid = "Some ''s-1''" and r = 0 and cfg = example_config and csid = "Some ''CA1''"
        and k = 0 and out = Rejected and rv = StreamUrl
        and srv' = "fst (step StreamUrl example_config (ready_server\<lparr>
          objs := (objs ready_server)(0 := (objs ready_server 0)\<lparr>transcript :=
            [\<lparr>role = Agent, etext = ''hi'', timestamp = 0\<rparr>,
             \<lparr>role = User, etext = ''yo'', timestamp = 0\<rparr>]\<rparr>),
          clock := 1499, uptime := 1499\<rparr>) (TwilioMessage 0 (Json Stop)))"]
      report_when_configured [where srv = "ready_server\<lparr>
          objs := (objs ready_server)(0 := (objs ready_server 0)\<lparr>transcript :=
            [\<lparr>role = Agent, etext = ''hi'', timestamp = 0\<rparr>,
             \<lparr>role = User, etext = ''yo'', timestamp = 0\<rparr>]\<rparr>),
          clock := 1499, uptime := 1499\<rparr>"
        and sid = "Some ''s-1''" and r = 0 and cfg = no_collector and csid = "Some ''CA1''"]
    by (simp add: handler_defs example_defs transcriptStr_def transcript_line_def
        label_user_def label_agent_def)
qed

text \<open>
  The claim as stated fails on the content of the report: the body holds a sixth field,
  the message type, next to the five the claim lists. The example call starts and
  stops.
\<close>

theorem report_carries_message_type:
  "snd (run StreamUrl example_config init
     [PostSession ''s-1'' example_body, WsConnection (Some ''s-1''),
      TwilioMessage 0 (Json (Start (Some example_start))),
      TwilioMessage 0 (Json Stop)]) =
     [Console Info, ResJson ''s-1'', Console Info, NewWebSocket 0 0, Console Info,
      Fetch \<lparr>report_type = ''openai-realtime-end'', report_callId = Some ''c-1'',
             report_callSid = Some ''CA1'', report_transcript = [], report_duration = 0,
             report_endedReason = ''call_ended''\<rparr>]
   \<and> report_type \<lparr>report_type = ''openai-realtime-end'', report_callId = Some ''c-1'',
             report_callSid = Some ''CA1'', report_transcript = [], report_duration = 0,
             report_endedReason = ''call_ended''\<rparr> = ''openai-realtime-end''"
  by (simp add: handler_defs example_defs transcriptStr_def)

subsection \<open>C8: deletion after the grace period or at the maximum age\<close>



subsection \<open>C9: duration and transcript of the report\<close>

text \<open>
  C9, as the code has it. In the report of a first call of \<open>handleCallEnd\<close>, the
  duration is the wall-clock time since the creation of the session, in milliseconds,
  rounded to the nearest whole number of seconds, a half rounded up: it differs from
  the elapsed time by at most half a second. It is not negative exactly when the wall clock is not more
  than half a second behind the creation time of the session; when the wall clock has
  been set back further than that since the session was created, the reported duration
  is negative. The transcript is the text of the entries of the session, each as the
  label of its role (\<open>U+05DC U+05E7 U+05D5 U+05D7\<close> for the caller and
  \<open>U+05E1 U+05D5 U+05DB U+05DF\<close> for the assistant, in UTF-8), a colon, a space and its
  text, with a newline between consecutive lines, in the order of the list; and the
  list is in arrival order, since each push appends at its end.
\<close>

theorem report_duration_and_transcript:
  assumes "sessions_get srv sid = Some r" and "\<not> ended (objs srv r)"
    and "Fetch b \<in> set (snd (handleCallEnd cfg sid csid srv))"
  shows
    "report_duration b = seconds_rounded (clock srv - createdAt (objs srv r))
     \<and> \<bar>1000 * report_duration b - (clock srv - createdAt (objs srv r))\<bar> \<le> 500
     \<and> clock srv - createdAt (objs srv r) - 500 < 1000 * report_duration b
     \<and> 1000 * report_duration b \<le> clock srv - createdAt (objs srv r) + 500
     \<and> (0 \<le> report_duration b) = (createdAt (objs srv r) - 500 \<le> clock srv)
     \<and> report_transcript b = transcriptStr (transcript (objs srv r))
     \<and> transcriptStr [] = []
     \<and> transcriptStr (ts @ [t]) =
         (if ts = [] then [] else transcriptStr ts @ [CHR 0x0A]) @
         (if role t = User then label_user else label_agent) @ '': '' @ etext t
     \<and> label_user = [CHR 0xD7, CHR 0x9C, CHR 0xD7, CHR 0xA7, CHR 0xD7, CHR 0x95, CHR 0xD7, CHR 0x97]
     \<and> label_agent = [CHR 0xD7, CHR 0xA1, CHR 0xD7, CHR 0x95, CHR 0xD7, CHR 0x9B, CHR 0xD7, CHR 0x9F]
     \<and> transcript (objs (transcript_push r' ro txt srv') r') =
         transcript (objs srv' r') @ [\<lparr>role = ro, etext = txt, timestamp = clock srv'\<rparr>]"
proof -
  from assms have b: "b = \<lparr>report_type = ''openai-realtime-end'',
                  report_callId = callId (objs srv r),
                  report_callSid = csid,
                  report_transcript = transcriptStr (transcript (objs srv r)),
                  report_duration = seconds_rounded (clock srv - createdAt (objs srv r)),
                  report_endedReason = ''call_ended''\<rparr>"
    by (auto simp: handleCallEnd_first [OF assms(1,2)] split: if_splits)
  have d: "report_duration b = seconds_rounded (clock srv - createdAt (objs srv r))"
    and t: "report_transcript b = transcriptStr (transcript (objs srv r))"
    by (simp_all add: b)
  have near: "\<bar>1000 * report_duration b - (clock srv - createdAt (objs srv r))\<bar> \<le> 500"
    unfolding d by (rule seconds_rounded_near)
  have lo: "clock srv - createdAt (objs srv r) - 500 < 1000 * report_duration b"
    and hi: "1000 * report_duration b \<le> clock srv - createdAt (objs srv r) + 500"
    unfolding d by (rule seconds_rounded_bounds)+
  have pos: "(0 \<le> report_duration b) = (createdAt (objs srv r) - 500 \<le> clock srv)"
    unfolding d seconds_rounded_def by (simp add: pos_imp_zdiv_nonneg_iff) linarith
  have snoc: "transcriptStr (ts @ [t]) =
         (if ts = [] then [] else transcriptStr ts @ [CHR 0x0A]) @
         (if role t = User then label_user else label_agent) @ '': '' @ etext t"
    by (simp add: transcriptStr_def join_snoc transcript_line_def)
  have push: "transcript (objs (transcript_push r' ro txt srv') r') =
         transcript (objs srv' r') @ [\<lparr>role = ro, etext = txt, timestamp = clock srv'\<rparr>]"
    by (simp add: transcript_push_def)
  have nil: "transcriptStr [] = []"
    by (simp add: transcriptStr_def)
  have lu: "label_user = [CHR 0xD7, CHR 0x9C, CHR 0xD7, CHR 0xA7, CHR 0xD7, CHR 0x95, CHR 0xD7, CHR 0x97]"
    by (simp only: label_user_def)
  have la: "label_agent = [CHR 0xD7, CHR 0xA1, CHR 0xD7, CHR 0x95, CHR 0xD7, CHR 0x9B, CHR 0xD7, CHR 0x9F]"
    by (simp only: label_agent_def)
  from d near lo hi pos t nil snoc lu la push show ?thesis
    by blast
qed

text \<open>
  On the ready call the assistant says \<open>hi\<close>, the caller says \<open>yo\<close>, and the call stops
  1499 ms after the session was created: the report gives one second and the two
  lines in that order, each with the label of its speaker.
\<close>

theorem report_duration_and_transcript_witness:
  "sessions_get (fst (run StreamUrl example_config ready_server example_talk)) (Some ''s-1'') = Some 0
   \<and> \<not> ended (objs (fst (run StreamUrl example_config ready_server example_talk)) 0)
   \<and> Fetch \<lparr>report_type = ''openai-realtime-end'', report_callId = Some ''c-1'',
             report_callSid = Some ''CA1'',
             report_transcript =
               [CHR 0xD7, CHR 0xA1, CHR 0xD7, CHR 0x95, CHR 0xD7, CHR 0x9B, CHR 0xD7, CHR 0x9F,
                CHR '':'', CHR '' '', CHR ''h'', CHR ''i'', CHR 0x0A,
                CHR 0xD7, CHR 0x9C, CHR 0xD7, CHR 0xA7, CHR 0xD7, CHR 0x95, CHR 0xD7, CHR 0x97,
                CHR '':'', CHR '' '', CHR ''y'', CHR ''o''],
             report_duration = 1, report_endedReason = ''call_ended''\<rparr>
       \<in> set (snd (handleCallEnd example_config (Some ''s-1'') (Some ''CA1'')
                 (fst (run StreamUrl example_config ready_server example_talk))))
   \<and> clock (fst (run StreamUrl example_config ready_server example_talk)) -
       createdAt (objs (fst (run StreamUrl example_config ready_server example_talk)) 0) = 1499
   \<and> seconds_rounded 1499 = 1
   \<and> transcript (objs (fst (run StreamUrl example_config ready_server example_talk)) 0) =
       [\<lparr>role = Agent, etext = ''hi'', timestamp = 0\<rparr>, \<lparr>role = User, etext = ''yo'', timestamp = 0\<rparr>]
   \<and> transcriptStr
        [\<lparr>role = Agent, etext = ''hi'', timestamp = 0\<rparr>, \<lparr>role = User, etext = ''yo'', timestamp = 0\<rparr>] =
       [CHR 0xD7, CHR 0xA1, CHR 0xD7, CHR 0x95, CHR 0xD7, CHR 0x9B, CHR 0xD7, CHR 0x9F,
        CHR '':'', CHR '' '', CHR ''h'', CHR ''i'', CHR 0x0A,
        CHR 0xD7, CHR 0x9C, CHR 0xD7, CHR 0xA7, CHR 0xD7, CHR 0x95, CHR 0xD7, CHR 0x97,
        CHR '':'', CHR '' '', CHR ''y'', CHR ''o'']"
proof -
  let ?S = "fst (run StreamUrl example_config ready_server example_talk)"
  let ?T = "[CHR 0xD7, CHR 0xA1, CHR 0xD7, CHR 0x95, CHR 0xD7, CHR 0x9B, CHR 0xD7, CHR 0x9F,
        CHR '':'', CHR '' '', CHR ''h'', CHR ''i'', CHR 0x0A,
        CHR 0xD7, CHR 0x9C, CHR 0xD7, CHR 0xA7, CHR 0xD7, CHR 0x95, CHR 0xD7, CHR 0x97,
        CHR '':'', CHR '' '', CHR ''y'', CHR ''o'']"
  let ?B = "\<lparr>report_type = ''openai-realtime-end'', report_callId = Some ''c-1'',
             report_callSid = Some ''CA1'', report_transcript = ?T,
             report_duration = 1, report_endedReason = ''call_ended''\<rparr>"
  have a: "sessions_get ?S (Some ''s-1'') = Some 0" and b: "\<not> ended (objs ?S 0)"
    and c: "clock ?S - createdAt (objs ?S 0) = 1499"
    and d: "transcript (objs ?S 0) =
       [\<lparr>role = Agent, etext = ''hi'', timestamp = 0\<rparr>, \<lparr>role = User, etext = ''yo'', timestamp = 0\<rparr>]"
    by (simp_all add: handler_defs example_defs example_talk_def)
  have e: "transcriptStr
        [\<lparr>role = Agent, etext = ''hi'', timestamp = 0\<rparr>, \<lparr>role = User, etext = ''yo'', timestamp = 0\<rparr>] =
       ?T"
    by (simp add: transcriptStr_def transcript_line_def label_user_def label_agent_def)
  have f: "seconds_rounded 1499 = 1"
    by (simp add: seconds_rounded_def)
  have g: "Fetch ?B \<in> set (snd (handleCallEnd example_config (Some ''s-1'') (Some ''CA1'') ?S))"
    using a b c d e f
    by (simp add: handleCallEnd_first [OF a b] example_config_def truthy_def)
      (simp add: handler_defs example_defs example_talk_def)
  from report_duration_and_transcript [OF a b g] a b c d e f g show ?thesis
    by simp
qed

text \<open>
  The claim as stated fails on the sign of the duration: the wall clock can be set back.
  The session is created when the clock reads 5000 ms; the clock is then set back to
  3000 ms and the call stops: the report gives a duration of -2 seconds.
\<close>

theorem negative_duration_after_clock_set_back:
  "snd (run StreamUrl example_config init
     [Advance 5000, PostSession ''s-1'' example_body, WsConnection (Some ''s-1''),
      TwilioMessage 0 (Json (Start (Some example_start))), SetClock 3000,
      TwilioMessage 0 (Json Stop)]) =
     [Console Info, ResJson ''s-1'', Console Info, NewWebSocket 0 0, Console Info,
      Fetch \<lparr>report_type = ''openai-realtime-end'', report_callId = Some ''c-1'',
             report_callSid = Some ''CA1'', report_transcript = [], report_duration = - 2,
             report_endedReason = ''call_ended''\<rparr>]
   \<and> report_duration \<lparr>report_type = ''openai-realtime-end'', report_callId = Some ''c-1'',
             report_callSid = Some ''CA1'', report_transcript = [], report_duration = - 2,
             report_endedReason = ''call_ended''\<rparr> < 0"
  by (simp add: handler_defs example_defs transcriptStr_def seconds_rounded_def)

end
